theory Spec2Isabelle
  imports Main "HOL-Library.Word" "HOL-Library.Signed_Division"
begin

unbundle bit_operations_syntax

section \<open>The storage core (tinyecs.h)\<close>

text \<open>
  The C structures are records, the C arrays are functions from the index (for the
  fixed-size arrays of a chunk and the zero-filled tables of the entity index) or lists
  (for the growing arrays, whose element count is the length).  Archetypes live on a heap
  of the world: an archetype pointer is an address, a freed archetype leaves its address
  empty.  A call that dereferences a null or dangling pointer, indexes outside an array or
  never leaves a loop returns a \<open>fault\<close>; every other call returns its result.

  Scope of the model: every component uses the default (native) storage provider, as
  after \<open>tecs_register_component\<close>; allocation never fails; a fresh allocation
  is zero-filled; \<open>int\<close> counters are unbounded integers.
\<close>

datatype fault = NullDeref | OutOfBounds | Dangling | NoReturn | AssertFailed | DivideByZero

definition and_then :: "fault + 'a \<Rightarrow> ('a \<Rightarrow> fault + 'b) \<Rightarrow> fault + 'b" where
  "and_then m f = (case m of Inl e \<Rightarrow> Inl e | Inr x \<Rightarrow> f x)"

type_synonym tecs_entity_t = "64 word"
type_synonym tecs_component_id_t = "64 word"
type_synonym tecs_tick_t = "32 word"

definition TECS_CHUNK_SIZE :: int where
  "TECS_CHUNK_SIZE = 4096"

definition TECS_ENTITY_INDEX :: "tecs_entity_t \<Rightarrow> 32 word" where
  "TECS_ENTITY_INDEX e = ucast (e AND 0xFFFFFFFF)"

definition TECS_ENTITY_GENERATION :: "tecs_entity_t \<Rightarrow> 16 word" where
  "TECS_ENTITY_GENERATION e = ucast (drop_bit 32 e AND 0xFFFF)"

definition TECS_ENTITY_MAKE :: "32 word \<Rightarrow> 16 word \<Rightarrow> tecs_entity_t" where
  "TECS_ENTITY_MAKE idx gen = ucast idx OR push_bit 32 (ucast gen)"

subsection \<open>Entity sparse set\<close>

record tecs_entity_record_t =
  rec_archetype :: "nat option"
  rec_chunk_index :: int
  rec_row :: int

text \<open>
  \<open>ss_dense\<close> and \<open>ss_recycled\<close> hold the first \<open>dense_count\<close> and
  \<open>recycled_count\<close> slots of the C arrays: the code never reads a slot at or past
  the count before it writes it.
\<close>

record tecs_entity_sparse_set_t =
  ss_sparse :: "nat \<Rightarrow> 32 word"
  ss_sparse_capacity :: nat
  ss_dense :: "tecs_entity_record_t list"
  ss_recycled :: "32 word list"
  ss_generations :: "nat \<Rightarrow> 16 word"
  ss_generation_capacity :: nat

definition tecs_sparse_set_init :: tecs_entity_sparse_set_t where
  "tecs_sparse_set_init =
     \<lparr>ss_sparse = (\<lambda>_. 0), ss_sparse_capacity = 1024, ss_dense = [], ss_recycled = [],
      ss_generations = (\<lambda>_. 0), ss_generation_capacity = 1024\<rparr>"

text \<open>The loop \<open>while (index >= new_capacity) new_capacity *= 2\<close>; a capacity of 0
  (never reached: capacities start at 1024) is returned as it is.\<close>

function grow_capacity :: "nat \<Rightarrow> nat \<Rightarrow> nat" where
  "grow_capacity index c = (if c \<le> index \<and> 0 < c then grow_capacity index (2 * c) else c)"
  by pat_completeness auto
termination
  by (relation "measure (\<lambda>(index, c). Suc index - c)") auto

definition tecs_sparse_set_ensure_capacity ::
  "tecs_entity_sparse_set_t \<Rightarrow> 32 word \<Rightarrow> tecs_entity_sparse_set_t" where
  "tecs_sparse_set_ensure_capacity s index =
     s\<lparr>ss_sparse_capacity :=
          (if ss_sparse_capacity s \<le> unat index
           then grow_capacity (unat index) (2 * ss_sparse_capacity s) else ss_sparse_capacity s),
       ss_generation_capacity :=
          (if ss_generation_capacity s \<le> unat index
           then grow_capacity (unat index) (2 * ss_generation_capacity s)
           else ss_generation_capacity s)\<rparr>"

definition tecs_sparse_set_create ::
  "tecs_entity_sparse_set_t \<Rightarrow> tecs_entity_sparse_set_t \<times> tecs_entity_t" where
  "tecs_sparse_set_create s =
     (let index = (if ss_recycled s \<noteq> [] then last (ss_recycled s)
                   else of_nat (length (ss_dense s)));
          generation = (if ss_recycled s \<noteq> [] then ss_generations s (unat index) + 1 else 0);
          s1 = (if ss_recycled s \<noteq> []
                then s\<lparr>ss_recycled := butlast (ss_recycled s),
                       ss_generations := (ss_generations s)(unat index := generation)\<rparr>
                else s);
          s2 = tecs_sparse_set_ensure_capacity s1 index
      in (s2\<lparr>ss_sparse := (ss_sparse s2)(unat index := of_nat (length (ss_dense s2))),
              ss_dense := ss_dense s2 @
                [\<lparr>rec_archetype = None, rec_chunk_index = - 1, rec_row = - 1\<rparr>]\<rparr>,
          TECS_ENTITY_MAKE index generation))"

text \<open>The result is the position in \<open>dense\<close> that the returned pointer addresses;
  \<open>None\<close> is the null pointer.\<close>

definition tecs_sparse_set_get :: "tecs_entity_sparse_set_t \<Rightarrow> tecs_entity_t \<Rightarrow> nat option" where
  "tecs_sparse_set_get s entity =
     (if ss_sparse_capacity s \<le> unat (TECS_ENTITY_INDEX entity) then None
      else if ss_generations s (unat (TECS_ENTITY_INDEX entity)) \<noteq> TECS_ENTITY_GENERATION entity
      then None
      else if (of_nat (length (ss_dense s)) :: 32 word) \<le> ss_sparse s (unat (TECS_ENTITY_INDEX entity))
      then None
      else Some (unat (ss_sparse s (unat (TECS_ENTITY_INDEX entity)))))"

definition tecs_sparse_set_remove ::
  "tecs_entity_sparse_set_t \<Rightarrow> tecs_entity_t \<Rightarrow> tecs_entity_sparse_set_t" where
  "tecs_sparse_set_remove s entity =
     (let index = TECS_ENTITY_INDEX entity; dense_index = ss_sparse s (unat index) in
      if ss_sparse_capacity s \<le> unat index then s
      else if (of_nat (length (ss_dense s)) :: 32 word) \<le> dense_index then s
      else s\<lparr>ss_dense :=
                butlast (if dense_index < of_nat (length (ss_dense s) - 1)
                         then (ss_dense s)[unat dense_index := last (ss_dense s)]
                         else ss_dense s),
              ss_recycled := ss_recycled s @ [index]\<rparr>)"

subsection \<open>Component and edge hash maps\<close>

text \<open>
  \<open>tecs_component_map_t\<close> and \<open>tecs_edge_map_t\<close> are the same open-addressing
  table with linear probing, over \<open>int\<close> and over archetype pointers; the list of
  entries has the table's capacity as its length.  The lookup's \<open>do ... while\<close>
  loop ends after at most \<open>capacity\<close> probes, when the index is back at its start.
  The insertion's \<open>while\<close> loop has no such exit: after \<open>capacity\<close> probes over
  occupied slots with other keys it is back where it started and never ends, which the
  probe returns as \<open>None\<close>.
\<close>

record 'v tecs_map_entry_t =
  me_key :: tecs_component_id_t
  me_val :: 'v
  me_occupied :: bool

fun map_lookup :: "'v tecs_map_entry_t list \<Rightarrow> tecs_component_id_t \<Rightarrow> nat \<Rightarrow> nat \<Rightarrow> nat \<Rightarrow> 'v option" where
  "map_lookup es k index start 0 = None"
| "map_lookup es k index start (Suc n) =
     (if \<not> me_occupied (es ! index) then None
      else if me_key (es ! index) = k then Some (me_val (es ! index))
      else if (index + 1) mod length es \<noteq> start
      then map_lookup es k ((index + 1) mod length es) start n
      else None)"

fun map_probe :: "'v tecs_map_entry_t list \<Rightarrow> tecs_component_id_t \<Rightarrow> nat \<Rightarrow> nat \<Rightarrow> nat option" where
  "map_probe es k index 0 = None"
| "map_probe es k index (Suc n) =
     (if me_occupied (es ! index) \<and> me_key (es ! index) \<noteq> k
      then map_probe es k ((index + 1) mod length es) n
      else Some index)"

definition map_init :: "nat \<Rightarrow> 'v \<Rightarrow> 'v tecs_map_entry_t list" where
  "map_init capacity z = replicate capacity \<lparr>me_key = 0, me_val = z, me_occupied = False\<rparr>"

definition map_insert ::
  "'v tecs_map_entry_t list \<Rightarrow> tecs_component_id_t \<Rightarrow> 'v \<Rightarrow> fault + 'v tecs_map_entry_t list" where
  "map_insert es k v =
     (if length es = 0 then Inr es
      else case map_probe es k (unat k mod length es) (length es) of
             None \<Rightarrow> Inl NoReturn
           | Some i \<Rightarrow> Inr (es[i := \<lparr>me_key = k, me_val = v, me_occupied = True\<rparr>]))"

type_synonym tecs_component_map_t = "int tecs_map_entry_t list"
type_synonym tecs_edge_map_t = "nat option tecs_map_entry_t list"

definition tecs_component_map_get :: "tecs_component_map_t \<Rightarrow> tecs_component_id_t \<Rightarrow> int" where
  "tecs_component_map_get m component_id =
     (if length m = 0 then - 1
      else case map_lookup m component_id (unat component_id mod length m)
                  (unat component_id mod length m) (length m) of
             None \<Rightarrow> - 1 | Some v \<Rightarrow> v)"

definition tecs_component_map_set ::
  "tecs_component_map_t \<Rightarrow> tecs_component_id_t \<Rightarrow> int \<Rightarrow> fault + tecs_component_map_t" where
  "tecs_component_map_set m component_id v = map_insert m component_id v"

definition tecs_edge_map_get :: "tecs_edge_map_t \<Rightarrow> tecs_component_id_t \<Rightarrow> nat option" where
  "tecs_edge_map_get m component_id =
     (if length m = 0 then None
      else case map_lookup m component_id (unat component_id mod length m)
                  (unat component_id mod length m) (length m) of
             None \<Rightarrow> None | Some v \<Rightarrow> v)"

definition tecs_edge_map_set ::
  "tecs_edge_map_t \<Rightarrow> tecs_component_id_t \<Rightarrow> nat \<Rightarrow> fault + tecs_edge_map_t" where
  "tecs_edge_map_set m component_id target = map_insert m component_id (Some target)"

subsection \<open>Native storage, columns and chunks\<close>

text \<open>
  A column's storage is the byte array of \<open>tecs_native_storage_t\<close>, addressed by
  byte offset; row \<open>index\<close> of a component of \<open>sz\<close> bytes is the bytes from
  \<open>index * sz\<close>.  \<open>data\<close> is the source buffer of a \<open>memcpy\<close>.
\<close>

definition tecs_native_set_data :: "(nat \<Rightarrow> 8 word) \<Rightarrow> nat \<Rightarrow> 8 word list \<Rightarrow> nat \<Rightarrow> (nat \<Rightarrow> 8 word)" where
  "tecs_native_set_data st index data sz =
     (\<lambda>a. if index * sz \<le> a \<and> a < index * sz + sz then data ! (a - index * sz) else st a)"

definition tecs_native_copy_data ::
  "(nat \<Rightarrow> 8 word) \<Rightarrow> nat \<Rightarrow> (nat \<Rightarrow> 8 word) \<Rightarrow> nat \<Rightarrow> nat \<Rightarrow> (nat \<Rightarrow> 8 word)" where
  "tecs_native_copy_data src src_idx dst dst_idx sz =
     (\<lambda>a. if dst_idx * sz \<le> a \<and> a < dst_idx * sz + sz
          then src (src_idx * sz + (a - dst_idx * sz)) else dst a)"

definition tecs_native_swap_data :: "(nat \<Rightarrow> 8 word) \<Rightarrow> nat \<Rightarrow> nat \<Rightarrow> nat \<Rightarrow> (nat \<Rightarrow> 8 word)" where
  "tecs_native_swap_data st idx_a idx_b sz =
     (if idx_a = idx_b then st
      else tecs_native_copy_data st idx_a (tecs_native_copy_data st idx_b st idx_a sz) idx_b sz)"

record tecs_column_t =
  col_storage :: "nat \<Rightarrow> 8 word"
  col_changed_ticks :: "nat \<Rightarrow> tecs_tick_t"
  col_added_ticks :: "nat \<Rightarrow> tecs_tick_t"

record tecs_chunk_t =
  ch_entities :: "nat \<Rightarrow> tecs_entity_t"
  ch_columns :: "tecs_column_t list"
  ch_count :: int

record tecs_component_info_t =
  ci_id :: tecs_component_id_t
  ci_size :: int
  ci_column_index :: int

definition tecs_chunk_new :: "tecs_component_info_t list \<Rightarrow> tecs_chunk_t" where
  "tecs_chunk_new data_components =
     \<lparr>ch_entities = (\<lambda>_. 0),
      ch_columns = map (\<lambda>_. \<lparr>col_storage = (\<lambda>_. 0), col_changed_ticks = (\<lambda>_. 0),
                                col_added_ticks = (\<lambda>_. 0)\<rparr>) data_components,
      ch_count = 0\<rparr>"

subsection \<open>Archetypes\<close>

record tecs_archetype_t =
  a_id :: "64 word"
  a_components :: "tecs_component_info_t list"
  a_data_components :: "tecs_component_info_t list"
  a_tags :: "tecs_component_info_t list"
  a_chunks :: "tecs_chunk_t list"
  a_entity_count :: int
  a_add_edges :: "(tecs_component_id_t \<times> nat) list"
  a_remove_edges :: "(tecs_component_id_t \<times> nat) list"
  a_component_map :: tecs_component_map_t
  a_data_component_map :: tecs_component_map_t
  a_add_edge_map :: tecs_edge_map_t
  a_remove_edge_map :: tecs_edge_map_t

definition tecs_hash_component_set :: "tecs_component_id_t list \<Rightarrow> 64 word" where
  "tecs_hash_component_set ids =
     foldl (\<lambda>hash i. (hash XOR i) * 1099511628211) 14695981039346656037 (sort ids)"

fun populate_map :: "tecs_component_info_t list \<Rightarrow> nat \<Rightarrow> tecs_component_map_t \<Rightarrow> fault + tecs_component_map_t" where
  "populate_map [] i m = Inr m"
| "populate_map (c # cs) i m =
     and_then (tecs_component_map_set m (ci_id c) (int i)) (populate_map cs (Suc i))"

fun number_columns :: "tecs_component_info_t list \<Rightarrow> nat \<Rightarrow> tecs_component_info_t list" where
  "number_columns [] i = []"
| "number_columns (c # cs) i = c\<lparr>ci_column_index := int i\<rparr> # number_columns cs (Suc i)"

definition tecs_archetype_new :: "tecs_component_info_t list \<Rightarrow> fault + tecs_archetype_t" where
  "tecs_archetype_new components =
     (let sorted = sort_key ci_id components;
          datas = number_columns (filter (\<lambda>c. 0 < ci_size c) sorted) 0
      in and_then (populate_map sorted 0 (map_init (max 8 (2 * length components)) 0))
           (\<lambda>cmap. and_then (populate_map datas 0 (map_init (max 8 (2 * length datas)) 0))
              (\<lambda>dmap. Inr \<lparr>a_id = tecs_hash_component_set (map ci_id components),
                           a_components = sorted,
                           a_data_components = datas,
                           a_tags = filter (\<lambda>c. \<not> 0 < ci_size c) sorted,
                           a_chunks = [],
                           a_entity_count = 0,
                           a_add_edges = [],
                           a_remove_edges = [],
                           a_component_map = cmap,
                           a_data_component_map = dmap,
                           a_add_edge_map = map_init 16 None,
                           a_remove_edge_map = map_init 16 None\<rparr>)))"

definition tecs_archetype_find_component :: "tecs_archetype_t \<Rightarrow> tecs_component_id_t \<Rightarrow> int" where
  "tecs_archetype_find_component arch component_id =
     tecs_component_map_get (a_component_map arch) component_id"

definition tecs_archetype_has_component :: "tecs_archetype_t \<Rightarrow> tecs_component_id_t \<Rightarrow> bool" where
  "tecs_archetype_has_component arch component_id =
     (0 \<le> tecs_archetype_find_component arch component_id)"

definition tecs_archetype_find_edge :: "tecs_archetype_t \<Rightarrow> tecs_component_id_t \<Rightarrow> bool \<Rightarrow> nat option" where
  "tecs_archetype_find_edge arch component_id is_add =
     tecs_edge_map_get (if is_add then a_add_edge_map arch else a_remove_edge_map arch) component_id"

definition tecs_archetype_add_edge ::
  "tecs_archetype_t \<Rightarrow> tecs_component_id_t \<Rightarrow> nat \<Rightarrow> bool \<Rightarrow> fault + tecs_archetype_t" where
  "tecs_archetype_add_edge arch component_id target is_add =
     (if is_add
      then and_then (tecs_edge_map_set (a_add_edge_map arch) component_id target)
             (\<lambda>m. Inr (arch\<lparr>a_add_edges := a_add_edges arch @ [(component_id, target)],
                            a_add_edge_map := m\<rparr>))
      else and_then (tecs_edge_map_set (a_remove_edge_map arch) component_id target)
             (\<lambda>m. Inr (arch\<lparr>a_remove_edges := a_remove_edges arch @ [(component_id, target)],
                            a_remove_edge_map := m\<rparr>)))"

subsection \<open>World\<close>

record tecs_archetype_table_entry_t =
  te_hash :: "64 word"
  te_archetype :: "nat option"

record tecs_component_registry_entry_t =
  reg_id :: tecs_component_id_t
  reg_name :: string
  reg_size :: int

record tecs_children_t =
  chl_entities :: "tecs_entity_t list"
  chl_capacity :: int

text \<open>
  \<open>w_heap\<close> maps the address of every allocated archetype to the archetype;
  \<open>w_heap_next\<close> is the next address \<open>calloc\<close> returns (addresses are not reused).
  \<open>w_entity_children\<close> is the pair of arrays \<open>keys\<close>, \<open>values\<close> of the
  hierarchy side table, each value the children list the pointer addresses.  The
  command buffer of the world (never filled by any function of the header) and the
  registry's id map (read only to choose a storage provider) are left out.
\<close>

record tecs_world_t =
  w_entities :: tecs_entity_sparse_set_t
  w_root_archetype :: nat
  w_archetype_table :: "tecs_archetype_table_entry_t list"
  w_archetype_table_size :: int
  w_component_registry :: "tecs_component_registry_entry_t list"
  w_tick :: tecs_tick_t
  w_structural_change_version :: "64 word"
  w_in_deferred :: bool
  w_entity_children :: "(tecs_entity_t \<times> tecs_children_t) list"
  w_parent_component_id :: tecs_component_id_t
  w_children_component_id :: tecs_component_id_t
  w_heap :: "nat \<Rightarrow> tecs_archetype_t option"
  w_heap_next :: nat

definition deref :: "tecs_world_t \<Rightarrow> nat \<Rightarrow> fault + tecs_archetype_t" where
  "deref w p = (case w_heap w p of None \<Rightarrow> Inl Dangling | Some a \<Rightarrow> Inr a)"

definition store :: "tecs_world_t \<Rightarrow> nat \<Rightarrow> tecs_archetype_t \<Rightarrow> tecs_world_t" where
  "store w p a = w\<lparr>w_heap := (w_heap w)(p := Some a)\<rparr>"

fun find_free_chunk :: "tecs_chunk_t list \<Rightarrow> nat \<Rightarrow> nat option" where
  "find_free_chunk [] i = None"
| "find_free_chunk (c # cs) i =
     (if ch_count c < TECS_CHUNK_SIZE then Some i else find_free_chunk cs (Suc i))"

definition set_ticks :: "nat \<Rightarrow> tecs_tick_t \<Rightarrow> tecs_column_t \<Rightarrow> tecs_column_t" where
  "set_ticks row tick col =
     col\<lparr>col_added_ticks := (col_added_ticks col)(row := tick),
         col_changed_ticks := (col_changed_ticks col)(row := tick)\<rparr>"

text \<open>\<open>record\<close> is the position in \<open>dense\<close> of the entity record the C pointer
  addresses (\<open>None\<close>: the null pointer).\<close>

definition tecs_archetype_add_entity ::
  "tecs_world_t \<Rightarrow> nat \<Rightarrow> tecs_entity_t \<Rightarrow> nat option \<Rightarrow> tecs_tick_t \<Rightarrow> fault + tecs_world_t" where
  "tecs_archetype_add_entity w arch entity record tick =
     and_then (deref w arch) (\<lambda>a.
       let chunk_idx = (case find_free_chunk (a_chunks a) 0 of
                          Some i \<Rightarrow> i | None \<Rightarrow> length (a_chunks a));
           chunks1 = (case find_free_chunk (a_chunks a) 0 of
                        Some i \<Rightarrow> a_chunks a
                      | None \<Rightarrow> a_chunks a @ [tecs_chunk_new (a_data_components a)]);
           chunk = chunks1 ! chunk_idx;
           row = ch_count chunk
       in if row < 0 then Inl OutOfBounds
          else case record of
                 None \<Rightarrow> Inl NullDeref
               | Some di \<Rightarrow>
                   let w1 = store w arch
                         (a\<lparr>a_chunks := chunks1[chunk_idx :=
                                chunk\<lparr>ch_entities := (ch_entities chunk)(nat row := entity),
                                      ch_count := row + 1,
                                      ch_columns := map (set_ticks (nat row) tick) (ch_columns chunk)\<rparr>],
                            a_entity_count := a_entity_count a + 1\<rparr>)
                   in Inr (w1\<lparr>w_entities := (w_entities w1)
                              \<lparr>ss_dense := (ss_dense (w_entities w1))
                                 [di := \<lparr>rec_archetype = Some arch,
                                         rec_chunk_index = int chunk_idx,
                                         rec_row = a_entity_count a + 1 - 1\<rparr>]\<rparr>\<rparr>))"

definition swap_column :: "nat \<Rightarrow> nat \<Rightarrow> tecs_column_t \<times> tecs_component_info_t \<Rightarrow> tecs_column_t" where
  "swap_column row last_row cc =
     (case cc of (col, info) \<Rightarrow>
        col\<lparr>col_storage := tecs_native_swap_data (col_storage col) row last_row (nat (ci_size info)),
            col_changed_ticks := (col_changed_ticks col)(row := col_changed_ticks col last_row),
            col_added_ticks := (col_added_ticks col)(row := col_added_ticks col last_row)\<rparr>)"

definition tecs_archetype_remove_entity ::
  "tecs_world_t \<Rightarrow> nat \<Rightarrow> int \<Rightarrow> int \<Rightarrow> fault + tecs_world_t" where
  "tecs_archetype_remove_entity w arch chunk_idx row =
     and_then (deref w arch) (\<lambda>a.
       if chunk_idx < 0 \<or> int (length (a_chunks a)) \<le> chunk_idx then Inl OutOfBounds
       else
         let chunk = a_chunks a ! nat chunk_idx;
             last_row = ch_count chunk - 1
         in if row = last_row
            then Inr (store w arch
                   (a\<lparr>a_chunks := (a_chunks a)[nat chunk_idx := chunk\<lparr>ch_count := ch_count chunk - 1\<rparr>],
                      a_entity_count := a_entity_count a - 1\<rparr>))
            else if row < 0 \<or> TECS_CHUNK_SIZE \<le> row \<or> last_row < 0 \<or> TECS_CHUNK_SIZE \<le> last_row
            then Inl OutOfBounds
            else Inr (store w arch
                   (a\<lparr>a_chunks := (a_chunks a)[nat chunk_idx :=
                          chunk\<lparr>ch_entities := (ch_entities chunk)
                                   (nat row := ch_entities chunk (nat last_row)),
                                ch_columns := map (swap_column (nat row) (nat last_row))
                                   (zip (ch_columns chunk) (a_data_components a)),
                                ch_count := ch_count chunk - 1\<rparr>],
                      a_entity_count := a_entity_count a - 1\<rparr>)))"

subsection \<open>World management and the archetype hash table\<close>

definition tecs_register_component :: "tecs_world_t \<Rightarrow> string \<Rightarrow> int \<Rightarrow> tecs_world_t \<times> tecs_component_id_t" where
  "tecs_register_component w name sz =
     (w\<lparr>w_component_registry := w_component_registry w @
          [\<lparr>reg_id = of_nat (length (w_component_registry w)) + 1, reg_name = take 63 name,
            reg_size = sz\<rparr>]\<rparr>,
      of_nat (length (w_component_registry w)) + 1)"

text \<open>\<open>sizeof(tecs_parent_t)\<close> is 8 and \<open>sizeof(tecs_children_t)\<close> is 16 (a pointer
  and two \<open>int\<close>s on a 64-bit target).\<close>

definition tecs_world_new :: "fault + tecs_world_t" where
  "tecs_world_new =
     and_then (tecs_archetype_new []) (\<lambda>root.
       let w0 = \<lparr>w_entities = tecs_sparse_set_init,
                 w_root_archetype = 0,
                 w_archetype_table =
                   (replicate 32 \<lparr>te_hash = 0, te_archetype = None\<rparr>)
                     [unat (a_id root) mod 32 := \<lparr>te_hash = a_id root, te_archetype = Some 0\<rparr>],
                 w_archetype_table_size = 1,
                 w_component_registry = [],
                 w_tick = 0,
                 w_structural_change_version = 0,
                 w_in_deferred = False,
                 w_entity_children = [],
                 w_parent_component_id = 0,
                 w_children_component_id = 0,
                 w_heap = (\<lambda>_. None)(0 := Some root),
                 w_heap_next = 1\<rparr>
       in case tecs_register_component w0 ''tecs_parent_t'' 8 of
            (w1, parent_id) \<Rightarrow>
              (case tecs_register_component w1 ''tecs_children_t'' 16 of
                 (w2, children_id) \<Rightarrow>
                   Inr (w2\<lparr>w_parent_component_id := parent_id,
                           w_children_component_id := children_id\<rparr>)))"

definition tecs_world_update :: "tecs_world_t \<Rightarrow> tecs_world_t" where
  "tecs_world_update w = w\<lparr>w_tick := w_tick w + 1\<rparr>"

definition tecs_world_tick :: "tecs_world_t \<Rightarrow> tecs_tick_t" where
  "tecs_world_tick w = w_tick w"

definition tecs_world_entity_count :: "tecs_world_t \<Rightarrow> int" where
  "tecs_world_entity_count w = int (length (ss_dense (w_entities w)))"

text \<open>The loop of \<open>tecs_world_clear\<close> over the slots of the archetype table: the
  archetypes it frees, and the table it leaves.\<close>

definition free_slot :: "tecs_archetype_table_entry_t list \<Rightarrow> nat \<Rightarrow> nat \<Rightarrow>
    (nat \<Rightarrow> tecs_archetype_t option) \<Rightarrow> (nat \<Rightarrow> tecs_archetype_t option)" where
  "free_slot t root i heap =
     (case te_archetype (t ! i) of
        None \<Rightarrow> heap
      | Some p \<Rightarrow> if p \<noteq> root then heap(p := None) else heap)"

definition clear_slot :: "tecs_archetype_table_entry_t list \<Rightarrow> nat \<Rightarrow> nat \<Rightarrow> tecs_archetype_table_entry_t" where
  "clear_slot t root i =
     (if te_archetype (t ! i) \<noteq> None \<and> te_archetype (t ! i) \<noteq> Some root
      then \<lparr>te_hash = 0, te_archetype = None\<rparr> else t ! i)"

definition tecs_world_clear :: "tecs_world_t \<Rightarrow> fault + tecs_world_t" where
  "tecs_world_clear w =
     (let w1 = w\<lparr>w_entities := (w_entities w)\<lparr>ss_dense := [], ss_recycled := []\<rparr>,
                 w_tick := 0,
                 w_structural_change_version := w_structural_change_version w + 1,
                 w_archetype_table :=
                   map (clear_slot (w_archetype_table w) (w_root_archetype w))
                     [0 ..< length (w_archetype_table w)],
                 w_heap :=
                   fold (free_slot (w_archetype_table w) (w_root_archetype w))
                     [0 ..< length (w_archetype_table w)] (w_heap w),
                 w_archetype_table_size := 1\<rparr>
      in and_then (deref w1 (w_root_archetype w1)) (\<lambda>root.
           Inr (store w1 (w_root_archetype w1)
                  (root\<lparr>a_chunks := map (\<lambda>c. c\<lparr>ch_count := 0\<rparr>) (a_chunks root),
                        a_entity_count := 0\<rparr>))))"

fun find_archetype_loop ::
  "tecs_archetype_table_entry_t list \<Rightarrow> 64 word \<Rightarrow> nat \<Rightarrow> nat \<Rightarrow> nat \<Rightarrow> nat option" where
  "find_archetype_loop t hash index start 0 = None"
| "find_archetype_loop t hash index start (Suc n) =
     (case te_archetype (t ! index) of
        None \<Rightarrow> None
      | Some p \<Rightarrow>
          if te_hash (t ! index) = hash then Some p
          else if (index + 1) mod length t \<noteq> start
          then find_archetype_loop t hash ((index + 1) mod length t) start n
          else None)"

definition tecs_world_find_archetype :: "tecs_world_t \<Rightarrow> 64 word \<Rightarrow> nat option" where
  "tecs_world_find_archetype w hash =
     (if length (w_archetype_table w) = 0 then None
      else find_archetype_loop (w_archetype_table w) hash
             (unat hash mod length (w_archetype_table w))
             (unat hash mod length (w_archetype_table w)) (length (w_archetype_table w)))"

text \<open>The probe \<open>while (table[index].archetype != NULL) index = (index + 1) % capacity\<close>:
  \<open>None\<close> when every slot is taken, where the loop never ends.\<close>

fun probe_null :: "tecs_archetype_table_entry_t list \<Rightarrow> nat \<Rightarrow> nat \<Rightarrow> nat option" where
  "probe_null t index 0 = None"
| "probe_null t index (Suc n) =
     (if te_archetype (t ! index) \<noteq> None then probe_null t ((index + 1) mod length t) n
      else Some index)"

text \<open>The rehash loop over the slots \<open>is\<close> of the old table.\<close>

fun rehash :: "tecs_archetype_table_entry_t list \<Rightarrow> nat list \<Rightarrow> tecs_archetype_table_entry_t list \<Rightarrow> int \<Rightarrow>
    fault + (tecs_archetype_table_entry_t list \<times> int)" where
  "rehash old [] new sz = Inr (new, sz)"
| "rehash old (i # is) new sz =
     (if te_archetype (old ! i) \<noteq> None
      then case probe_null new (unat (te_hash (old ! i)) mod length new) (length new) of
             None \<Rightarrow> Inl NoReturn
           | Some j \<Rightarrow> rehash old is (new[j := old ! i]) (sz + 1)
      else rehash old is new sz)"

definition tecs_world_add_archetype :: "tecs_world_t \<Rightarrow> nat \<Rightarrow> fault + tecs_world_t" where
  "tecs_world_add_archetype w arch =
     and_then (deref w arch) (\<lambda>a.
     and_then (if (int (length (w_archetype_table w)) * 7) sdiv 10 \<le> w_archetype_table_size w
               then rehash (w_archetype_table w) [0 ..< length (w_archetype_table w)]
                      (replicate (2 * length (w_archetype_table w)) \<lparr>te_hash = 0, te_archetype = None\<rparr>) 0
               else Inr (w_archetype_table w, w_archetype_table_size w))
       (\<lambda>ts. case probe_null (fst ts) (unat (a_id a) mod length (fst ts)) (length (fst ts)) of
               None \<Rightarrow> Inl NoReturn
             | Some i \<Rightarrow>
                 Inr (w\<lparr>w_archetype_table := (fst ts)[i := \<lparr>te_hash = a_id a, te_archetype = Some arch\<rparr>],
                        w_archetype_table_size := snd ts + 1,
                        w_structural_change_version := w_structural_change_version w + 1\<rparr>)))"

subsection \<open>Entity operations\<close>

definition tecs_entity_new :: "tecs_world_t \<Rightarrow> fault + (tecs_world_t \<times> tecs_entity_t)" where
  "tecs_entity_new w =
     (let created = tecs_sparse_set_create (w_entities w);
          w1 = w\<lparr>w_entities := fst created\<rparr>
      in and_then (tecs_archetype_add_entity w1 (w_root_archetype w1) (snd created)
                     (tecs_sparse_set_get (w_entities w1) (snd created)) (w_tick w1))
           (\<lambda>w2. Inr (w2, snd created)))"

definition tecs_entity_delete :: "tecs_world_t \<Rightarrow> tecs_entity_t \<Rightarrow> fault + tecs_world_t" where
  "tecs_entity_delete w entity =
     (case tecs_sparse_set_get (w_entities w) entity of
        None \<Rightarrow> Inr w
      | Some di \<Rightarrow>
          (case rec_archetype (ss_dense (w_entities w) ! di) of
             None \<Rightarrow> Inr w
           | Some arch \<Rightarrow>
               and_then (tecs_archetype_remove_entity w arch
                           (rec_chunk_index (ss_dense (w_entities w) ! di))
                           (rec_row (ss_dense (w_entities w) ! di) smod TECS_CHUNK_SIZE))
                 (\<lambda>w1. Inr (w1\<lparr>w_entities := tecs_sparse_set_remove (w_entities w1) entity\<rparr>))))"

definition tecs_entity_exists :: "tecs_world_t \<Rightarrow> tecs_entity_t \<Rightarrow> bool" where
  "tecs_entity_exists w entity = (tecs_sparse_set_get (w_entities w) entity \<noteq> None)"

subsection \<open>Component operations\<close>

definition alloc_archetype :: "tecs_world_t \<Rightarrow> tecs_archetype_t \<Rightarrow> tecs_world_t \<times> nat" where
  "alloc_archetype w a =
     (w\<lparr>w_heap := (w_heap w)(w_heap_next w := Some a), w_heap_next := w_heap_next w + 1\<rparr>,
      w_heap_next w)"

definition add_edge_at :: "tecs_world_t \<Rightarrow> nat \<Rightarrow> tecs_component_id_t \<Rightarrow> nat \<Rightarrow> bool \<Rightarrow> fault + tecs_world_t" where
  "add_edge_at w arch component_id target is_add =
     and_then (deref w arch) (\<lambda>a.
       and_then (tecs_archetype_add_edge a component_id target is_add) (\<lambda>a1.
         Inr (store w arch a1)))"

definition find_or_create_archetype ::
  "tecs_world_t \<Rightarrow> tecs_component_info_t list \<Rightarrow> 64 word \<Rightarrow> fault + (tecs_world_t \<times> nat)" where
  "find_or_create_archetype w new_components hash =
     (case tecs_world_find_archetype w hash of
        Some target \<Rightarrow> Inr (w, target)
      | None \<Rightarrow>
          and_then (tecs_archetype_new new_components) (\<lambda>a.
            case alloc_archetype w a of
              (w1, target) \<Rightarrow>
                and_then (tecs_world_add_archetype w1 target) (\<lambda>w2. Inr (w2, target))))"

definition tecs_world_get_or_create_archetype_with_component ::
  "tecs_world_t \<Rightarrow> nat \<Rightarrow> tecs_component_id_t \<Rightarrow> int \<Rightarrow> fault + (tecs_world_t \<times> nat)" where
  "tecs_world_get_or_create_archetype_with_component w current component_id sz =
     and_then (deref w current) (\<lambda>cur.
       case tecs_archetype_find_edge cur component_id True of
         Some target \<Rightarrow> Inr (w, target)
       | None \<Rightarrow>
           let new_components = a_components cur @
                 [\<lparr>ci_id = component_id, ci_size = sz, ci_column_index = - 1\<rparr>]
           in and_then (find_or_create_archetype w new_components
                          (tecs_hash_component_set (map ci_id new_components)))
                (\<lambda>wt. and_then (add_edge_at (fst wt) current component_id (snd wt) True)
                   (\<lambda>w1. and_then (add_edge_at w1 (snd wt) component_id current False)
                      (\<lambda>w2. Inr (w2, snd wt)))))"

definition tecs_world_get_or_create_archetype_without_component ::
  "tecs_world_t \<Rightarrow> nat \<Rightarrow> tecs_component_id_t \<Rightarrow> fault + (tecs_world_t \<times> nat)" where
  "tecs_world_get_or_create_archetype_without_component w current component_id =
     and_then (deref w current) (\<lambda>cur.
       case tecs_archetype_find_edge cur component_id False of
         Some target \<Rightarrow> Inr (w, target)
       | None \<Rightarrow>
           let new_components = filter (\<lambda>c. ci_id c \<noteq> component_id) (a_components cur)
           in if int (length (a_components cur)) - 1 < 0 then Inr (w, current)
              else if int (length new_components) \<noteq> int (length (a_components cur)) - 1
              then Inr (w, current)
              else and_then (if length new_components = 0 then Inr (w, w_root_archetype w)
                             else find_or_create_archetype w new_components
                                    (tecs_hash_component_set (map ci_id new_components)))
                     (\<lambda>wt. and_then (add_edge_at (fst wt) current component_id (snd wt) False)
                        (\<lambda>w1. and_then (add_edge_at w1 (snd wt) component_id current True)
                           (\<lambda>w2. Inr (w2, snd wt)))))"

text \<open>One step of the loop of \<open>tecs_copy_component_data\<close>: source column \<open>i\<close> is
  copied into the destination chunk when the destination archetype has the component.\<close>

definition copy_column ::
  "tecs_archetype_t \<Rightarrow> tecs_chunk_t \<Rightarrow> nat \<Rightarrow> tecs_archetype_t \<Rightarrow> nat \<Rightarrow> nat \<Rightarrow> tecs_chunk_t \<Rightarrow>
     fault + tecs_chunk_t" where
  "copy_column src_arch src_chunk src_row dst_arch dst_row i dst_chunk =
     (let dst_column_idx = tecs_component_map_get (a_data_component_map dst_arch)
                             (ci_id (a_data_components src_arch ! i))
      in if dst_column_idx < 0 then Inr dst_chunk
         else if ci_size (a_data_components src_arch ! i) \<noteq>
                 ci_size (a_data_components dst_arch ! nat dst_column_idx)
         then Inl AssertFailed
         else
           let src_column = ch_columns src_chunk ! i;
               dst_column = ch_columns dst_chunk ! nat dst_column_idx
           in Inr (dst_chunk\<lparr>ch_columns := (ch_columns dst_chunk)[nat dst_column_idx :=
                     dst_column\<lparr>col_storage := tecs_native_copy_data (col_storage src_column) src_row
                                    (col_storage dst_column) dst_row
                                    (nat (ci_size (a_data_components src_arch ! i))),
                                 col_changed_ticks := (col_changed_ticks dst_column)
                                    (dst_row := col_changed_ticks src_column src_row),
                                 col_added_ticks := (col_added_ticks dst_column)
                                    (dst_row := col_added_ticks src_column src_row)\<rparr>]\<rparr>))"

fun copy_columns ::
  "tecs_archetype_t \<Rightarrow> tecs_chunk_t \<Rightarrow> nat \<Rightarrow> tecs_archetype_t \<Rightarrow> nat \<Rightarrow> nat list \<Rightarrow> tecs_chunk_t \<Rightarrow>
     fault + tecs_chunk_t" where
  "copy_columns src_arch src_chunk src_row dst_arch dst_row [] dst_chunk = Inr dst_chunk"
| "copy_columns src_arch src_chunk src_row dst_arch dst_row (i # is) dst_chunk =
     and_then (copy_column src_arch src_chunk src_row dst_arch dst_row i dst_chunk)
       (copy_columns src_arch src_chunk src_row dst_arch dst_row is)"

text \<open>The chunks are given by archetype address and chunk index; the rows are the
  \<open>int\<close> arguments of the C function.\<close>

definition tecs_copy_component_data ::
  "tecs_world_t \<Rightarrow> nat \<Rightarrow> nat \<Rightarrow> int \<Rightarrow> nat \<Rightarrow> int \<Rightarrow> int \<Rightarrow> fault + tecs_world_t" where
  "tecs_copy_component_data w src src_chunk_idx src_row dst dst_chunk_idx dst_row =
     and_then (deref w src) (\<lambda>src_arch.
     and_then (deref w dst) (\<lambda>dst_arch.
       if dst_chunk_idx < 0 \<or> int (length (a_chunks dst_arch)) \<le> dst_chunk_idx
          \<or> length (a_chunks src_arch) \<le> src_chunk_idx
          \<or> src_row < 0 \<or> dst_row < 0
       then Inl OutOfBounds
       else and_then (copy_columns src_arch (a_chunks src_arch ! src_chunk_idx) (nat src_row)
                        dst_arch (nat dst_row) [0 ..< length (a_data_components src_arch)]
                        (a_chunks dst_arch ! nat dst_chunk_idx))
              (\<lambda>chunk. Inr (store w dst
                 (dst_arch\<lparr>a_chunks := (a_chunks dst_arch)[nat dst_chunk_idx := chunk]\<rparr>)))))"

text \<open>Writing \<open>sz\<close> bytes of \<open>data\<close> into a column at a row, with the ticks the caller
  sets: the \<open>set_data\<close> calls of \<open>tecs_set\<close>.\<close>

definition write_component ::
  "tecs_world_t \<Rightarrow> nat \<Rightarrow> int \<Rightarrow> nat \<Rightarrow> int \<Rightarrow> 8 word list \<Rightarrow> int \<Rightarrow> bool \<Rightarrow> fault + tecs_world_t" where
  "write_component w arch chunk_idx column_idx row data sz added =
     and_then (deref w arch) (\<lambda>a.
       if chunk_idx < 0 \<or> int (length (a_chunks a)) \<le> chunk_idx \<or> row < 0 then Inl OutOfBounds
       else
         let chunk = a_chunks a ! nat chunk_idx;
             column = ch_columns chunk ! column_idx;
             column1 = column\<lparr>col_storage := tecs_native_set_data (col_storage column) (nat row) data (nat sz),
                              col_changed_ticks := (col_changed_ticks column)(nat row := w_tick w)\<rparr>;
             column2 = (if added
                        then column1\<lparr>col_added_ticks := (col_added_ticks column1)(nat row := w_tick w)\<rparr>
                        else column1)
         in Inr (store w arch
                   (a\<lparr>a_chunks := (a_chunks a)[nat chunk_idx :=
                         chunk\<lparr>ch_columns := (ch_columns chunk)[column_idx := column2]\<rparr>]\<rparr>)))"

text \<open>The second half of \<open>tecs_set\<close> and of \<open>tecs_unset\<close>: the entity whose record is
  at \<open>di\<close> moves from archetype \<open>current\<close> to \<open>new_arch\<close>; \<open>payload\<close> is the
  new component's id, bytes and size (\<open>tecs_set\<close>) or nothing (\<open>tecs_unset\<close>).\<close>

definition move_entity ::
  "tecs_world_t \<Rightarrow> nat \<Rightarrow> nat \<Rightarrow> nat \<Rightarrow> (tecs_component_id_t \<times> 8 word list \<times> int) option \<Rightarrow>
     fault + tecs_world_t" where
  "move_entity w di current new_arch payload =
     and_then (deref w current) (\<lambda>cur.
       let old_chunk_idx = rec_chunk_index (ss_dense (w_entities w) ! di);
           old_row = rec_row (ss_dense (w_entities w) ! di) smod TECS_CHUNK_SIZE
       in if old_chunk_idx < 0 \<or> int (length (a_chunks cur)) \<le> old_chunk_idx \<or> old_row < 0
          then Inl OutOfBounds
          else
            and_then (tecs_archetype_add_entity w new_arch
                        (ch_entities (a_chunks cur ! nat old_chunk_idx) (nat old_row)) (Some di) (w_tick w))
              (\<lambda>w1.
                 let new_chunk_idx = rec_chunk_index (ss_dense (w_entities w1) ! di);
                     new_row = rec_row (ss_dense (w_entities w1) ! di) smod TECS_CHUNK_SIZE
                 in and_then (tecs_copy_component_data w1 current (nat old_chunk_idx) old_row
                                new_arch new_chunk_idx new_row)
                      (\<lambda>w2. and_then
                         (case payload of
                            None \<Rightarrow> Inr w2
                          | Some (component_id, data, sz) \<Rightarrow>
                              and_then (deref w2 new_arch) (\<lambda>na.
                                let new_column_idx =
                                      tecs_component_map_get (a_data_component_map na) component_id
                                in if 0 \<le> new_column_idx
                                   then write_component w2 new_arch new_chunk_idx (nat new_column_idx)
                                          new_row data sz True
                                   else Inr w2))
                         (\<lambda>w3. tecs_archetype_remove_entity w3 current old_chunk_idx old_row))))"

definition tecs_set ::
  "tecs_world_t \<Rightarrow> tecs_entity_t \<Rightarrow> tecs_component_id_t \<Rightarrow> 8 word list \<Rightarrow> int \<Rightarrow> fault + tecs_world_t" where
  "tecs_set w entity component_id data sz =
     (case tecs_sparse_set_get (w_entities w) entity of
        None \<Rightarrow> Inr w
      | Some di \<Rightarrow>
          (case rec_archetype (ss_dense (w_entities w) ! di) of
             None \<Rightarrow> Inl NullDeref
           | Some current \<Rightarrow>
               and_then (deref w current) (\<lambda>cur.
                 if 0 \<le> tecs_archetype_find_component cur component_id
                 then
                   (let column_idx = tecs_component_map_get (a_data_component_map cur) component_id
                    in if column_idx < 0 then Inr w
                       else write_component w current
                              (rec_chunk_index (ss_dense (w_entities w) ! di)) (nat column_idx)
                              (rec_row (ss_dense (w_entities w) ! di) smod TECS_CHUNK_SIZE)
                              data sz False)
                 else
                   and_then (tecs_world_get_or_create_archetype_with_component w current component_id sz)
                     (\<lambda>wt. if snd wt = current then Inr (fst wt)
                           else move_entity (fst wt) di current (snd wt)
                                  (Some (component_id, data, sz))))))"

text \<open>A pointer into a column: the archetype, the chunk, the column and the byte offset
  that \<open>get_ptr\<close> computes.  \<open>load\<close> reads \<open>n\<close> bytes through it.\<close>

record tecs_ptr =
  ptr_arch :: nat
  ptr_chunk :: nat
  ptr_column :: nat
  ptr_offset :: nat

definition load :: "tecs_world_t \<Rightarrow> tecs_ptr \<Rightarrow> nat \<Rightarrow> 8 word list" where
  "load w p n =
     (case w_heap w (ptr_arch p) of
        None \<Rightarrow> []
      | Some a \<Rightarrow> map (\<lambda>k. col_storage (ch_columns (a_chunks a ! ptr_chunk p) ! ptr_column p)
                             (ptr_offset p + k)) [0 ..< n])"

definition tecs_get ::
  "tecs_world_t \<Rightarrow> tecs_entity_t \<Rightarrow> tecs_component_id_t \<Rightarrow> fault + tecs_ptr option" where
  "tecs_get w entity component_id =
     (case tecs_sparse_set_get (w_entities w) entity of
        None \<Rightarrow> Inr None
      | Some di \<Rightarrow>
          (case rec_archetype (ss_dense (w_entities w) ! di) of
             None \<Rightarrow> Inr None
           | Some arch \<Rightarrow>
               and_then (deref w arch) (\<lambda>a.
                 let column_idx = tecs_component_map_get (a_data_component_map a) component_id;
                     chunk_idx = rec_chunk_index (ss_dense (w_entities w) ! di);
                     row = rec_row (ss_dense (w_entities w) ! di) smod TECS_CHUNK_SIZE
                 in if column_idx < 0 then Inr None
                    else if chunk_idx < 0 \<or> int (length (a_chunks a)) \<le> chunk_idx \<or> row < 0
                    then Inl OutOfBounds
                    else Inr (Some \<lparr>ptr_arch = arch, ptr_chunk = nat chunk_idx,
                                    ptr_column = nat column_idx,
                                    ptr_offset = nat row *
                                      nat (ci_size (a_data_components a ! nat column_idx))\<rparr>))))"

definition tecs_has :: "tecs_world_t \<Rightarrow> tecs_entity_t \<Rightarrow> tecs_component_id_t \<Rightarrow> fault + bool" where
  "tecs_has w entity component_id =
     (case tecs_sparse_set_get (w_entities w) entity of
        None \<Rightarrow> Inr False
      | Some di \<Rightarrow>
          (case rec_archetype (ss_dense (w_entities w) ! di) of
             None \<Rightarrow> Inr False
           | Some arch \<Rightarrow>
               and_then (deref w arch) (\<lambda>a. Inr (tecs_archetype_has_component a component_id))))"

definition tecs_unset :: "tecs_world_t \<Rightarrow> tecs_entity_t \<Rightarrow> tecs_component_id_t \<Rightarrow> fault + tecs_world_t" where
  "tecs_unset w entity component_id =
     (case tecs_sparse_set_get (w_entities w) entity of
        None \<Rightarrow> Inr w
      | Some di \<Rightarrow>
          (case rec_archetype (ss_dense (w_entities w) ! di) of
             None \<Rightarrow> Inr w
           | Some current \<Rightarrow>
               and_then (deref w current) (\<lambda>cur.
                 if \<not> tecs_archetype_has_component cur component_id then Inr w
                 else
                   and_then (tecs_world_get_or_create_archetype_without_component w current component_id)
                     (\<lambda>wt. if snd wt = current then Inr (fst wt)
                           else move_entity (fst wt) di current (snd wt) None))))"

subsection \<open>Queries\<close>

datatype tecs_term_type_t =
  TECS_TERM_WITH | TECS_TERM_WITHOUT | TECS_TERM_OPTIONAL | TECS_TERM_CHANGED | TECS_TERM_ADDED

record tecs_query_term_t =
  term_type :: tecs_term_type_t
  term_component_id :: tecs_component_id_t
  term_data_index :: int

text \<open>The query's world pointer is the world argument of the functions below; its
  cached iterator is left out.\<close>

record tecs_query_t =
  q_terms :: "tecs_query_term_t list"
  q_matched_archetypes :: "nat list"
  q_last_structural_version :: "64 word"
  q_built :: bool

definition TECS_MAX_QUERY_TERMS :: nat where
  "TECS_MAX_QUERY_TERMS = 16"

definition tecs_query_new :: tecs_query_t where
  "tecs_query_new = \<lparr>q_terms = [], q_matched_archetypes = [], q_last_structural_version = 0,
                     q_built = False\<rparr>"

definition tecs_query_add_term :: "tecs_query_t \<Rightarrow> tecs_term_type_t \<Rightarrow> tecs_component_id_t \<Rightarrow> tecs_query_t" where
  "tecs_query_add_term q ty component_id =
     (if TECS_MAX_QUERY_TERMS \<le> length (q_terms q) then q
      else q\<lparr>q_terms := q_terms q @
                [\<lparr>term_type = ty, term_component_id = component_id, term_data_index = - 1\<rparr>]\<rparr>)"

definition tecs_query_with :: "tecs_query_t \<Rightarrow> tecs_component_id_t \<Rightarrow> tecs_query_t" where
  "tecs_query_with q component_id = tecs_query_add_term q TECS_TERM_WITH component_id"

definition tecs_query_without :: "tecs_query_t \<Rightarrow> tecs_component_id_t \<Rightarrow> tecs_query_t" where
  "tecs_query_without q component_id = tecs_query_add_term q TECS_TERM_WITHOUT component_id"

fun terms_match :: "tecs_archetype_t \<Rightarrow> tecs_query_term_t list \<Rightarrow> bool" where
  "terms_match arch [] = True"
| "terms_match arch (t # ts) =
     (case term_type t of
        TECS_TERM_WITH \<Rightarrow>
          (if \<not> tecs_archetype_has_component arch (term_component_id t) then False
           else terms_match arch ts)
      | TECS_TERM_CHANGED \<Rightarrow>
          (if \<not> tecs_archetype_has_component arch (term_component_id t) then False
           else terms_match arch ts)
      | TECS_TERM_ADDED \<Rightarrow>
          (if \<not> tecs_archetype_has_component arch (term_component_id t) then False
           else terms_match arch ts)
      | TECS_TERM_WITHOUT \<Rightarrow>
          (if tecs_archetype_has_component arch (term_component_id t) then False
           else terms_match arch ts)
      | TECS_TERM_OPTIONAL \<Rightarrow> terms_match arch ts)"

definition tecs_archetype_matches_query :: "tecs_archetype_t \<Rightarrow> tecs_query_t \<Rightarrow> bool" where
  "tecs_archetype_matches_query arch q = terms_match arch (q_terms q)"

text \<open>The loop of \<open>tecs_query_build\<close> over the slots \<open>is\<close> of the archetype table.\<close>

fun build_matches :: "tecs_world_t \<Rightarrow> tecs_query_t \<Rightarrow> nat list \<Rightarrow> nat list \<Rightarrow> fault + nat list" where
  "build_matches w q [] acc = Inr acc"
| "build_matches w q (i # is) acc =
     (case te_archetype (w_archetype_table w ! i) of
        None \<Rightarrow> build_matches w q is acc
      | Some p \<Rightarrow>
          and_then (deref w p) (\<lambda>a.
            build_matches w q is (if tecs_archetype_matches_query a q then acc @ [p] else acc)))"

definition tecs_query_build :: "tecs_world_t \<Rightarrow> tecs_query_t \<Rightarrow> fault + tecs_query_t" where
  "tecs_query_build w q =
     and_then (build_matches w q [0 ..< length (w_archetype_table w)] []) (\<lambda>ms.
       Inr (q\<lparr>q_matched_archetypes := ms,
              q_last_structural_version := w_structural_change_version w,
              q_built := True\<rparr>))"

text \<open>\<open>it_current_chunk\<close> is the chunk pointer: the archetype and the chunk's index.\<close>

record tecs_query_iter_t =
  it_archetype_index :: nat
  it_chunk_index :: int
  it_current_chunk :: "(nat \<times> nat) option"
  it_current_archetype :: "nat option"

definition tecs_query_iter_init :: "tecs_world_t \<Rightarrow> tecs_query_t \<Rightarrow> fault + (tecs_query_t \<times> tecs_query_iter_t)" where
  "tecs_query_iter_init w q =
     and_then (if \<not> q_built q then tecs_query_build w q
               else if q_last_structural_version q \<noteq> w_structural_change_version w
               then tecs_query_build w q else Inr q)
       (\<lambda>q1. Inr (q1, \<lparr>it_archetype_index = 0, it_chunk_index = - 1, it_current_chunk = None,
                        it_current_archetype = None\<rparr>))"

function iter_scan :: "tecs_world_t \<Rightarrow> nat list \<Rightarrow> tecs_query_iter_t \<Rightarrow> fault + (tecs_query_iter_t \<times> bool)" where
  "iter_scan w matched it =
     (if it_archetype_index it < length matched
      then case w_heap w (matched ! it_archetype_index it) of
             None \<Rightarrow> Inl Dangling
           | Some a \<Rightarrow>
               if it_chunk_index it < int (length (a_chunks a))
               then if it_chunk_index it < 0 then Inl OutOfBounds
                    else if 0 < ch_count (a_chunks a ! nat (it_chunk_index it))
                    then Inr (it\<lparr>it_current_archetype := Some (matched ! it_archetype_index it),
                                 it_current_chunk := Some (matched ! it_archetype_index it,
                                                           nat (it_chunk_index it))\<rparr>, True)
                    else iter_scan w matched
                           (it\<lparr>it_current_archetype := Some (matched ! it_archetype_index it),
                               it_current_chunk := Some (matched ! it_archetype_index it,
                                                         nat (it_chunk_index it)),
                               it_chunk_index := it_chunk_index it + 1\<rparr>)
               else iter_scan w matched
                      (it\<lparr>it_current_archetype := Some (matched ! it_archetype_index it),
                          it_archetype_index := it_archetype_index it + 1,
                          it_chunk_index := 0\<rparr>)
      else Inr (it, False))"
  by pat_completeness auto
termination
  by (relation "measures
        [\<lambda>(w, matched, it). length matched - it_archetype_index it,
         \<lambda>(w, matched, it). nat (int (length (a_chunks (the (w_heap w (matched ! it_archetype_index it)))))
                                  - it_chunk_index it)]") auto

definition tecs_iter_next :: "tecs_world_t \<Rightarrow> tecs_query_t \<Rightarrow> tecs_query_iter_t \<Rightarrow> fault + (tecs_query_iter_t \<times> bool)" where
  "tecs_iter_next w q it =
     iter_scan w (q_matched_archetypes q) (it\<lparr>it_chunk_index := it_chunk_index it + 1\<rparr>)"

definition tecs_iter_count :: "tecs_world_t \<Rightarrow> tecs_query_iter_t \<Rightarrow> fault + int" where
  "tecs_iter_count w it =
     (case it_current_chunk it of
        None \<Rightarrow> Inr 0
      | Some (p, ci) \<Rightarrow> and_then (deref w p) (\<lambda>a. Inr (ch_count (a_chunks a ! ci))))"

subsection \<open>Hierarchy\<close>

text \<open>
  A \<open>tecs_parent_t\<close> is the 8 bytes of the parent's handle, a \<open>tecs_children_t\<close> the
  8 bytes of its array pointer (whose value the model does not track: zero) and the 4
  bytes each of \<open>count\<close> and \<open>capacity\<close>, least significant byte first.
\<close>

definition le_bytes :: "nat \<Rightarrow> 64 word \<Rightarrow> 8 word list" where
  "le_bytes n x = map (\<lambda>i. ucast (drop_bit (8 * i) x)) [0 ..< n]"

definition le_word :: "8 word list \<Rightarrow> 64 word" where
  "le_word bs = foldr (\<lambda>b acc. ucast b OR push_bit 8 acc) bs 0"

definition children_bytes :: "tecs_children_t \<Rightarrow> 8 word list" where
  "children_bytes c =
     le_bytes 8 0 @ le_bytes 4 (of_nat (length (chl_entities c))) @ le_bytes 4 (of_int (chl_capacity c))"

text \<open>Reading \<open>parent->parent\<close> through the pointer \<open>tecs_get\<close> returned.\<close>

definition read_parent :: "tecs_world_t \<Rightarrow> tecs_ptr \<Rightarrow> tecs_entity_t" where
  "read_parent w p = le_word (load w p 8)"

fun find_key :: "(tecs_entity_t \<times> 'a) list \<Rightarrow> tecs_entity_t \<Rightarrow> nat \<Rightarrow> nat option" where
  "find_key [] k i = None"
| "find_key (e # es) k i = (if fst e = k then Some i else find_key es k (Suc i))"

definition tecs_find_children :: "tecs_world_t \<Rightarrow> tecs_entity_t \<Rightarrow> nat option" where
  "tecs_find_children w entity = find_key (w_entity_children w) entity 0"

definition tecs_ensure_children :: "tecs_world_t \<Rightarrow> tecs_entity_t \<Rightarrow> tecs_world_t \<times> nat" where
  "tecs_ensure_children w entity =
     (case tecs_find_children w entity of
        Some i \<Rightarrow> (w, i)
      | None \<Rightarrow>
          (w\<lparr>w_entity_children := w_entity_children w @
                [(entity, \<lparr>chl_entities = [], chl_capacity = 4\<rparr>)]\<rparr>,
           length (w_entity_children w)))"

definition tecs_remove_children_entry :: "tecs_world_t \<Rightarrow> tecs_entity_t \<Rightarrow> tecs_world_t" where
  "tecs_remove_children_entry w entity =
     (case tecs_find_children w entity of
        None \<Rightarrow> w
      | Some i \<Rightarrow>
          w\<lparr>w_entity_children :=
               butlast ((w_entity_children w)[i := last (w_entity_children w)])\<rparr>)"

fun ancestor_loop :: "tecs_world_t \<Rightarrow> tecs_entity_t \<Rightarrow> tecs_entity_t \<Rightarrow> nat \<Rightarrow> fault + bool" where
  "ancestor_loop w ancestor current 0 = Inr False"
| "ancestor_loop w ancestor current (Suc n) =
     (if current = 0 then Inr False
      else and_then (tecs_get w current (w_parent_component_id w)) (\<lambda>parent.
             case parent of
               None \<Rightarrow> Inr False
             | Some p \<Rightarrow>
                 if read_parent w p = ancestor then Inr True
                 else ancestor_loop w ancestor (read_parent w p) n))"

text \<open>The second argument of \<open>ancestor_loop\<close> counts the iterations left before
  \<open>depth\<close> reaches \<open>max_depth = 256\<close>.\<close>

definition tecs_is_ancestor_of :: "tecs_world_t \<Rightarrow> tecs_entity_t \<Rightarrow> tecs_entity_t \<Rightarrow> fault + bool" where
  "tecs_is_ancestor_of w ancestor descendant =
     (if \<not> tecs_entity_exists w ancestor then Inr False
      else if \<not> tecs_entity_exists w descendant then Inr False
      else ancestor_loop w ancestor descendant 256)"

definition tecs_get_parent :: "tecs_world_t \<Rightarrow> tecs_entity_t \<Rightarrow> fault + tecs_entity_t" where
  "tecs_get_parent w child =
     (if \<not> tecs_entity_exists w child then Inr 0
      else and_then (tecs_get w child (w_parent_component_id w)) (\<lambda>parent.
             case parent of None \<Rightarrow> Inr 0 | Some p \<Rightarrow> Inr (read_parent w p)))"

fun index_of :: "tecs_entity_t list \<Rightarrow> tecs_entity_t \<Rightarrow> nat \<Rightarrow> nat option" where
  "index_of [] x i = None"
| "index_of (e # es) x i = (if e = x then Some i else index_of es x (Suc i))"

text \<open>The block of \<open>tecs_add_child\<close> that removes the child from its old parent's list.\<close>

definition detach_from_old_parent :: "tecs_world_t \<Rightarrow> tecs_entity_t \<Rightarrow> tecs_entity_t \<Rightarrow> fault + tecs_world_t" where
  "detach_from_old_parent w old_parent child =
     (case tecs_find_children w old_parent of
        None \<Rightarrow> Inr w
      | Some idx \<Rightarrow>
          let old_children = snd (w_entity_children w ! idx) in
          (case index_of (chl_entities old_children) child 0 of
             None \<Rightarrow> Inr w
           | Some i \<Rightarrow>
               let c1 = old_children\<lparr>chl_entities :=
                          butlast ((chl_entities old_children)[i := last (chl_entities old_children)])\<rparr>;
                   w1 = w\<lparr>w_entity_children := (w_entity_children w)[idx := (old_parent, c1)]\<rparr>
               in if chl_entities c1 \<noteq> []
                  then tecs_set w1 old_parent (w_children_component_id w1) (children_bytes c1) 16
                  else tecs_unset (tecs_remove_children_entry w1 old_parent) old_parent
                         (w_children_component_id w1)))"

definition attach_child :: "tecs_world_t \<Rightarrow> tecs_entity_t \<Rightarrow> tecs_entity_t \<Rightarrow> fault + tecs_world_t" where
  "attach_child w parent child =
     and_then (tecs_set w child (w_parent_component_id w) (le_bytes 8 parent) 8) (\<lambda>w1.
       case tecs_ensure_children w1 parent of
         (w2, idx) \<Rightarrow>
           let children = snd (w_entity_children w2 ! idx);
               c1 = \<lparr>chl_entities = chl_entities children @ [child],
                     chl_capacity = (if chl_capacity children \<le> int (length (chl_entities children))
                                     then chl_capacity children * 2 else chl_capacity children)\<rparr>
           in tecs_set (w2\<lparr>w_entity_children := (w_entity_children w2)[idx := (parent, c1)]\<rparr>)
                parent (w_children_component_id w2) (children_bytes c1) 16)"

definition tecs_add_child :: "tecs_world_t \<Rightarrow> tecs_entity_t \<Rightarrow> tecs_entity_t \<Rightarrow> fault + tecs_world_t" where
  "tecs_add_child w parent child =
     (if \<not> tecs_entity_exists w parent then Inr w
      else if \<not> tecs_entity_exists w child then Inr w
      else if parent = child then Inr w
      else and_then (tecs_is_ancestor_of w child parent) (\<lambda>cyclic.
             if cyclic then Inr w
             else and_then (tecs_get w child (w_parent_component_id w)) (\<lambda>current_parent.
                    case current_parent of
                      None \<Rightarrow> attach_child w parent child
                    | Some p \<Rightarrow>
                        if read_parent w p = parent then Inr w
                        else and_then (detach_from_old_parent w (read_parent w p) child)
                               (\<lambda>w1. attach_child w1 parent child))))"

subsection \<open>Observations and scenario scripts\<close>

text \<open>The record an entity handle resolves to through the entity index.\<close>

definition record_of :: "tecs_world_t \<Rightarrow> tecs_entity_t \<Rightarrow> tecs_entity_record_t option" where
  "record_of w e =
     (case tecs_sparse_set_get (w_entities w) e of
        None \<Rightarrow> None
      | Some di \<Rightarrow> Some (ss_dense (w_entities w) ! di))"

text \<open>The handle stored at row \<open>i\<close> of chunk \<open>k\<close> of the archetype at \<open>p\<close>, when
  the row is occupied (\<open>i < count\<close>).\<close>

definition handle_at :: "tecs_world_t \<Rightarrow> nat \<Rightarrow> nat \<Rightarrow> nat \<Rightarrow> tecs_entity_t option" where
  "handle_at w p k i =
     (case w_heap w p of
        None \<Rightarrow> None
      | Some a \<Rightarrow>
          if k < length (a_chunks a) \<and> int i < ch_count (a_chunks a ! k)
          then Some (ch_entities (a_chunks a ! k) i) else None)"

text \<open>Invariant I2 at one occupied row: the handle stored there resolves to a record that
  names this archetype, this chunk and this row (the code keeps an archetype-wide row
  number in the record and uses it modulo the chunk size).\<close>

definition row_resolves :: "tecs_world_t \<Rightarrow> nat \<Rightarrow> nat \<Rightarrow> nat \<Rightarrow> bool" where
  "row_resolves w p k i =
     (case handle_at w p k i of
        None \<Rightarrow> False
      | Some h \<Rightarrow>
          (case record_of w h of
             None \<Rightarrow> False
           | Some r \<Rightarrow> rec_archetype r = Some p \<and> rec_chunk_index r = int k
                        \<and> rec_row r smod TECS_CHUNK_SIZE = int i))"

text \<open>The loops of the tests: spawn \<open>n\<close> entities and set the listed components
  (id, bytes, size) on each.\<close>

fun set_all :: "tecs_world_t \<Rightarrow> tecs_entity_t \<Rightarrow> (tecs_component_id_t \<times> 8 word list \<times> int) list \<Rightarrow>
    fault + tecs_world_t" where
  "set_all w e [] = Inr w"
| "set_all w e (c # cs) =
     and_then (tecs_set w e (fst c) (fst (snd c)) (snd (snd c))) (\<lambda>w1. set_all w1 e cs)"

fun spawn_entities :: "nat \<Rightarrow> (tecs_component_id_t \<times> 8 word list \<times> int) list \<Rightarrow> tecs_world_t \<Rightarrow>
    fault + tecs_world_t" where
  "spawn_entities 0 comps w = Inr w"
| "spawn_entities (Suc n) comps w =
     and_then (tecs_entity_new w) (\<lambda>we.
       and_then (set_all (fst we) (snd we) comps) (spawn_entities n comps))"

text \<open>The effect of the in-place branch of \<open>tecs_set\<close> on one column: the \<open>sz\<close> bytes
  of row \<open>row\<close> are replaced by \<open>v\<close> and the changed tick of the row is \<open>tick\<close>; the
  other bytes, the other changed ticks and all added ticks stay.\<close>

definition overwrite_row :: "tecs_column_t \<Rightarrow> nat \<Rightarrow> 8 word list \<Rightarrow> nat \<Rightarrow> tecs_tick_t \<Rightarrow> tecs_column_t" where
  "overwrite_row col row v sz tick =
     col\<lparr>col_storage := (\<lambda>a. if row * sz \<le> a \<and> a < row * sz + sz then v ! (a - row * sz)
                               else col_storage col a),
         col_changed_ticks := (col_changed_ticks col)(row := tick)\<rparr>"

text \<open>A world with one registered component of 4 bytes (id 3) and one entity holding it.\<close>

definition demo_run :: "fault + tecs_world_t" where
  "demo_run = and_then tecs_world_new (\<lambda>w0.
       and_then (tecs_entity_new (fst (tecs_register_component w0 ''C'' 4))) (\<lambda>we.
         tecs_set (fst we) (snd we) 3 [1, 2, 3, 4] 4))"

section \<open>The scheduler (tinyecs_bevy.h)\<close>

text \<open>
  The application owns a world, the stages, the systems and the event channels.  Stage
  structures are addressed by the pointer values the allocator returned, which are
  arguments of the model because the application files each stage's system list under the
  integer value of its pointer.  System structures are addressed by their position in
  \<open>app_systems\<close>, in the order \<open>tbevy_app_add_system\<close> allocated them.  A hash map
  that owns the objects its values point to (the system list of a stage, the channel of
  an event type: each is allocated right before it is stored and no other pointer to it
  is kept) holds the object itself, and a pointer to such an object is the slot of its
  entry.

  A system function, together with the commands it queues (applied when it returns), is
  a parameter: \<open>exec f\<close> is the effect of the function \<open>f\<close> on the data of the caller
  (the user data and globals of all systems, of type \<open>'u\<close>), the world and the event
  channels.  A run condition \<open>cond c\<close> reads the caller's data and the application.
  Systems that edit the schedule while a stage runs are outside the model, as are
  resources, observers and state machines, which the functions below do not use.
  Growing arrays are lists, buffers are unbounded byte arrays, \<open>size_t\<close> counters are
  natural numbers.
\<close>

datatype tbevy_stage_id_t =
    TBEVY_STAGE_STARTUP | TBEVY_STAGE_FIRST | TBEVY_STAGE_PRE_UPDATE | TBEVY_STAGE_UPDATE
  | TBEVY_STAGE_POST_UPDATE | TBEVY_STAGE_LAST | TBEVY_STAGE_CUSTOM

record tbevy_stage_t =
  st_id :: tbevy_stage_id_t
  st_name :: string
  st_order :: int

record tbevy_system_t =
  sys_fn :: nat
  sys_label :: string
  sys_stage :: "64 word option"
  sys_before_systems :: "nat list"
  sys_after_systems :: "nat list"
  sys_run_conditions :: "nat list"
  sys_declaration_order :: int
  sys_visited :: bool
  sys_visiting :: bool

subsection \<open>Hash map\<close>

text \<open>
  The capacity of a map is the length of its entry array.  \<open>tbevy_hashmap_get\<close> probes
  from \<open>key % capacity\<close>; its \<open>do ... while (index != start)\<close> loop runs its body at
  most \<open>capacity\<close> times, because after that many increments the index is back at its
  start.  The two \<open>while\<close> loops of \<open>tbevy_hashmap_set\<close> have no such exit: after
  \<open>capacity\<close> probes that all continue they are back where they started and never
  end, which the probes return as \<open>None\<close>.  A capacity of zero makes \<open>key % capacity\<close>
  a division by zero.
\<close>

record 'v tbevy_hashmap_entry_t =
  he_key :: "64 word"
  he_value :: "'v option"
  he_occupied :: bool

record 'v tbevy_hashmap_t =
  hm_entries :: "'v tbevy_hashmap_entry_t list"
  hm_size :: nat

definition hm_capacity :: "'v tbevy_hashmap_t \<Rightarrow> nat" where
  "hm_capacity m = length (hm_entries m)"

definition tbevy_hash_string :: "string \<Rightarrow> 64 word" where
  "tbevy_hash_string str = foldl (\<lambda>hash c. (push_bit 5 hash + hash) + of_nat (of_char c)) 5381 str"

definition tbevy_hashmap_init :: "nat \<Rightarrow> 'v tbevy_hashmap_t" where
  "tbevy_hashmap_init capacity =
     \<lparr>hm_entries = replicate capacity \<lparr>he_key = 0, he_value = None, he_occupied = False\<rparr>,
      hm_size = 0\<rparr>"

fun get_probe :: "'v tbevy_hashmap_entry_t list \<Rightarrow> 64 word \<Rightarrow> nat \<Rightarrow> nat \<Rightarrow> nat option" where
  "get_probe es k index 0 = None"
| "get_probe es k index (Suc n) =
     (if he_occupied (es ! index) \<and> he_key (es ! index) = k then Some index
      else if \<not> he_occupied (es ! index) then None
      else get_probe es k ((index + 1) mod length es) n)"

text \<open>The slot of the entry whose value \<open>tbevy_hashmap_get\<close> returns.\<close>

definition tbevy_hashmap_slot :: "'v tbevy_hashmap_t \<Rightarrow> 64 word \<Rightarrow> fault + nat option" where
  "tbevy_hashmap_slot m k =
     (if hm_capacity m = 0 then Inl DivideByZero
      else Inr (get_probe (hm_entries m) k (unat k mod hm_capacity m) (hm_capacity m)))"

definition tbevy_hashmap_get :: "'v tbevy_hashmap_t \<Rightarrow> 64 word \<Rightarrow> fault + 'v option" where
  "tbevy_hashmap_get m k =
     and_then (tbevy_hashmap_slot m k) (\<lambda>s.
       case s of None \<Rightarrow> Inr None | Some i \<Rightarrow> Inr (he_value (hm_entries m ! i)))"

fun free_probe :: "'v tbevy_hashmap_entry_t list \<Rightarrow> nat \<Rightarrow> nat \<Rightarrow> nat option" where
  "free_probe es index 0 = None"
| "free_probe es index (Suc n) =
     (if he_occupied (es ! index) then free_probe es ((index + 1) mod length es) n
      else Some index)"

text \<open>The loop of the resize over the entries of the old array.\<close>

fun rehash_entries :: "'v tbevy_hashmap_entry_t list \<Rightarrow> 'v tbevy_hashmap_entry_t list \<Rightarrow>
    fault + 'v tbevy_hashmap_entry_t list" where
  "rehash_entries [] new_entries = Inr new_entries"
| "rehash_entries (e # es) new_entries =
     (if he_occupied e
      then (case free_probe new_entries (unat (he_key e) mod length new_entries) (length new_entries) of
              None \<Rightarrow> Inl NoReturn
            | Some index \<Rightarrow> rehash_entries es (new_entries[index := e]))
      else rehash_entries es new_entries)"

fun set_probe :: "'v tbevy_hashmap_entry_t list \<Rightarrow> 64 word \<Rightarrow> nat \<Rightarrow> nat \<Rightarrow> nat option" where
  "set_probe es k index 0 = None"
| "set_probe es k index (Suc n) =
     (if he_occupied (es ! index) \<and> he_key (es ! index) \<noteq> k
      then set_probe es k ((index + 1) mod length es) n
      else Some index)"

text \<open>\<open>size >= capacity * 0.75\<close> compares in floating point, exactly for sizes below
  \<open>2^53\<close>.  The result names the slot that now holds the value.\<close>

definition hashmap_set_slot :: "'v tbevy_hashmap_t \<Rightarrow> 64 word \<Rightarrow> 'v \<Rightarrow> fault + 'v tbevy_hashmap_t \<times> nat" where
  "hashmap_set_slot m k v =
     and_then (if 3 * hm_capacity m \<le> 4 * hm_size m
               then and_then (rehash_entries (hm_entries m)
                                (replicate (hm_capacity m * 2)
                                   \<lparr>he_key = 0, he_value = None, he_occupied = False\<rparr>))
                      (\<lambda>es. Inr (m\<lparr>hm_entries := es\<rparr>))
               else Inr m) (\<lambda>m1.
       if hm_capacity m1 = 0 then Inl DivideByZero
       else case set_probe (hm_entries m1) k (unat k mod hm_capacity m1) (hm_capacity m1) of
              None \<Rightarrow> Inl NoReturn
            | Some index \<Rightarrow>
                Inr (\<lparr>hm_entries = (hm_entries m1)
                        [index := \<lparr>he_key = k, he_value = Some v, he_occupied = True\<rparr>],
                      hm_size = (if he_occupied (hm_entries m1 ! index) then hm_size m1
                                 else hm_size m1 + 1)\<rparr>, index))"

definition tbevy_hashmap_set :: "'v tbevy_hashmap_t \<Rightarrow> 64 word \<Rightarrow> 'v \<Rightarrow> fault + 'v tbevy_hashmap_t" where
  "tbevy_hashmap_set m k v = and_then (hashmap_set_slot m k v) (\<lambda>r. Inr (fst r))"

text \<open>An assignment through the pointer a lookup returned.\<close>

definition slot_update :: "'v tbevy_hashmap_t \<Rightarrow> nat \<Rightarrow> 'v \<Rightarrow> 'v tbevy_hashmap_t" where
  "slot_update m i v = m\<lparr>hm_entries := (hm_entries m)[i := (hm_entries m ! i)\<lparr>he_value := Some v\<rparr>]\<rparr>"

subsection \<open>Application and stages\<close>

record tbevy_event_channel_t =
  ec_read_buffer :: "nat \<Rightarrow> 8 word"
  ec_write_buffer :: "nat \<Rightarrow> 8 word"
  ec_read_count :: nat
  ec_read_capacity :: nat
  ec_write_count :: nat
  ec_write_capacity :: nat
  ec_element_size :: nat
  ec_epoch :: "64 word"
  ec_active_tick :: "32 word"

type_synonym tbevy_events_t = "tbevy_event_channel_t tbevy_hashmap_t"

record tbevy_app_t =
  app_world :: tecs_world_t
  app_stages :: "64 word list"
  app_stage_heap :: "64 word \<Rightarrow> tbevy_stage_t option"
  app_stage_systems :: "nat list tbevy_hashmap_t"
  app_default_stages :: "64 word list"
  app_systems :: "tbevy_system_t list"
  app_all_systems :: "nat list"
  app_labeled_systems :: "nat tbevy_hashmap_t"
  app_event_channels :: tbevy_events_t
  app_startup_run :: bool
  app_system_declaration_counter :: int

type_synonym 'u tbevy_system_fn_t =
  "nat \<Rightarrow> 'u \<times> tecs_world_t \<times> tbevy_events_t \<Rightarrow> 'u \<times> tecs_world_t \<times> tbevy_events_t"
type_synonym 'u tbevy_run_condition_fn_t = "nat \<Rightarrow> 'u \<times> tbevy_app_t \<Rightarrow> bool"

definition tbevy_stage_alloc :: "tbevy_stage_id_t \<Rightarrow> string \<Rightarrow> tbevy_stage_t" where
  "tbevy_stage_alloc stage_id name = \<lparr>st_id = stage_id, st_name = take 63 name, st_order = 0\<rparr>"

definition stage_deref :: "tbevy_app_t \<Rightarrow> 64 word \<Rightarrow> fault + tbevy_stage_t" where
  "stage_deref app stage = (case app_stage_heap app stage of None \<Rightarrow> Inl Dangling | Some s \<Rightarrow> Inr s)"

definition tbevy_app_add_stage :: "tbevy_app_t \<Rightarrow> 64 word \<Rightarrow> fault + tbevy_app_t" where
  "tbevy_app_add_stage app stage =
     and_then (stage_deref app stage) (\<lambda>s.
     and_then (tbevy_hashmap_set (app_stage_systems app) stage []) (\<lambda>m.
       Inr (app\<lparr>app_stage_heap := (app_stage_heap app)
                    (stage := Some (s\<lparr>st_order := int (length (app_stages app))\<rparr>)),
                app_stages := app_stages app @ [stage],
                app_stage_systems := m\<rparr>)))"

text \<open>\<open>addrs\<close> are the addresses of the six default stage structures, in the order they
  are allocated.\<close>

definition default_stage_names :: "(tbevy_stage_id_t \<times> string) list" where
  "default_stage_names =
     [(TBEVY_STAGE_STARTUP, ''Startup''), (TBEVY_STAGE_FIRST, ''First''),
      (TBEVY_STAGE_PRE_UPDATE, ''PreUpdate''), (TBEVY_STAGE_UPDATE, ''Update''),
      (TBEVY_STAGE_POST_UPDATE, ''PostUpdate''), (TBEVY_STAGE_LAST, ''Last'')]"

fun add_stages :: "tbevy_app_t \<Rightarrow> 64 word list \<Rightarrow> fault + tbevy_app_t" where
  "add_stages app [] = Inr app"
| "add_stages app (p # ps) = and_then (tbevy_app_add_stage app p) (\<lambda>app1. add_stages app1 ps)"

definition tbevy_app_new :: "64 word list \<Rightarrow> fault + tbevy_app_t" where
  "tbevy_app_new addrs =
     and_then tecs_world_new (\<lambda>w.
       add_stages
         \<lparr>app_world = w,
          app_stages = [],
          app_stage_heap = map_of (zip (take 6 addrs)
                             (map (\<lambda>d. tbevy_stage_alloc (fst d) (snd d)) default_stage_names)),
          app_stage_systems = tbevy_hashmap_init 64,
          app_default_stages = take 6 addrs,
          app_systems = [],
          app_all_systems = [],
          app_labeled_systems = tbevy_hashmap_init 128,
          app_event_channels = tbevy_hashmap_init 32,
          app_startup_run = False,
          app_system_declaration_counter = 0\<rparr>
         (take 6 addrs))"

definition tbevy_stage_default :: "tbevy_app_t \<Rightarrow> nat \<Rightarrow> 64 word" where
  "tbevy_stage_default app stage_id = app_default_stages app ! stage_id"

subsection \<open>Systems\<close>

text \<open>A builder is the application and the system it configures.\<close>

definition tbevy_app_add_system :: "tbevy_app_t \<Rightarrow> nat \<Rightarrow> tbevy_app_t \<times> nat" where
  "tbevy_app_add_system app fn =
     (app\<lparr>app_systems := app_systems app @
             [\<lparr>sys_fn = fn, sys_label = [], sys_stage = None, sys_before_systems = [],
               sys_after_systems = [], sys_run_conditions = [],
               sys_declaration_order = app_system_declaration_counter app,
               sys_visited = False, sys_visiting = False\<rparr>],
           app_all_systems := app_all_systems app @ [length (app_systems app)],
           app_system_declaration_counter := app_system_declaration_counter app + 1\<rparr>,
      length (app_systems app))"

definition system_update :: "tbevy_app_t \<Rightarrow> nat \<Rightarrow> (tbevy_system_t \<Rightarrow> tbevy_system_t) \<Rightarrow> fault + tbevy_app_t" where
  "system_update app system f =
     (if system < length (app_systems app)
      then Inr (app\<lparr>app_systems := (app_systems app)[system := f (app_systems app ! system)]\<rparr>)
      else Inl Dangling)"

definition tbevy_system_in_stage :: "tbevy_app_t \<Rightarrow> nat \<Rightarrow> 64 word \<Rightarrow> fault + tbevy_app_t" where
  "tbevy_system_in_stage app system stage = system_update app system (\<lambda>s. s\<lparr>sys_stage := Some stage\<rparr>)"

definition tbevy_system_label :: "tbevy_app_t \<Rightarrow> nat \<Rightarrow> string \<Rightarrow> fault + tbevy_app_t" where
  "tbevy_system_label app system label =
     and_then (system_update app system (\<lambda>s. s\<lparr>sys_label := take 63 label\<rparr>)) (\<lambda>app1.
     and_then (tbevy_hashmap_set (app_labeled_systems app1) (tbevy_hash_string label) system) (\<lambda>m.
       Inr (app1\<lparr>app_labeled_systems := m\<rparr>)))"

definition tbevy_system_after :: "tbevy_app_t \<Rightarrow> nat \<Rightarrow> string \<Rightarrow> fault + tbevy_app_t" where
  "tbevy_system_after app system label =
     and_then (tbevy_hashmap_get (app_labeled_systems app) (tbevy_hash_string label)) (\<lambda>after_sys.
       case after_sys of
         None \<Rightarrow> Inr app
       | Some a \<Rightarrow> system_update app system
                     (\<lambda>s. s\<lparr>sys_after_systems := sys_after_systems s @ [a]\<rparr>))"

definition tbevy_system_before :: "tbevy_app_t \<Rightarrow> nat \<Rightarrow> string \<Rightarrow> fault + tbevy_app_t" where
  "tbevy_system_before app system label =
     and_then (tbevy_hashmap_get (app_labeled_systems app) (tbevy_hash_string label)) (\<lambda>before_sys.
       case before_sys of
         None \<Rightarrow> Inr app
       | Some b \<Rightarrow> system_update app system
                     (\<lambda>s. s\<lparr>sys_before_systems := sys_before_systems s @ [b]\<rparr>))"

definition tbevy_system_run_if :: "tbevy_app_t \<Rightarrow> nat \<Rightarrow> nat \<Rightarrow> fault + tbevy_app_t" where
  "tbevy_system_run_if app system condition =
     system_update app system (\<lambda>s. s\<lparr>sys_run_conditions := sys_run_conditions s @ [condition]\<rparr>)"

text \<open>The first stage of the list whose id is \<open>TBEVY_STAGE_UPDATE\<close>.\<close>

fun find_update_stage :: "tbevy_app_t \<Rightarrow> 64 word list \<Rightarrow> fault + 64 word option" where
  "find_update_stage app [] = Inr None"
| "find_update_stage app (p # ps) =
     and_then (stage_deref app p) (\<lambda>s.
       if st_id s = TBEVY_STAGE_UPDATE then Inr (Some p) else find_update_stage app ps)"

definition tbevy_system_build :: "tbevy_app_t \<Rightarrow> nat \<Rightarrow> fault + tbevy_app_t" where
  "tbevy_system_build app system =
     (if \<not> system < length (app_systems app) then Inl Dangling
      else and_then (case sys_stage (app_systems app ! system) of
                       Some p \<Rightarrow> Inr (Some p)
                     | None \<Rightarrow> find_update_stage app (app_stages app)) (\<lambda>stage.
           and_then (system_update app system (\<lambda>s. s\<lparr>sys_stage := stage\<rparr>)) (\<lambda>app1.
             case stage of
               None \<Rightarrow> Inr app1
             | Some p \<Rightarrow>
                 and_then (tbevy_hashmap_slot (app_stage_systems app1) p) (\<lambda>slot.
                   case slot of
                     None \<Rightarrow> Inr app1
                   | Some i \<Rightarrow>
                       (case he_value (hm_entries (app_stage_systems app1) ! i) of
                          None \<Rightarrow> Inr app1
                        | Some sys_list \<Rightarrow>
                            Inr (app1\<lparr>app_stage_systems :=
                                   slot_update (app_stage_systems app1) i (sys_list @ [system])\<rparr>))))))"

text \<open>
  \<open>tbevy_visit_system\<close> on the system structures \<open>ss\<close>.  The first argument bounds the
  depth of the recursion; every level of it has marked one more system as being
  visited, so a depth beyond the number of systems is never reached.
\<close>

fun tbevy_visit_system :: "nat \<Rightarrow> tbevy_system_t list \<Rightarrow> nat \<Rightarrow> nat list \<Rightarrow>
    fault + tbevy_system_t list \<times> nat list"
and visit_before :: "nat \<Rightarrow> tbevy_system_t list \<Rightarrow> nat list \<Rightarrow> nat list \<Rightarrow>
    fault + tbevy_system_t list \<times> nat list" where
  "tbevy_visit_system 0 ss system result =
     (if \<not> system < length ss then Inl Dangling
      else if sys_visited (ss ! system) then Inr (ss, result)
      else if sys_visiting (ss ! system) then Inr (ss, result)
      else Inl NoReturn)"
| "tbevy_visit_system (Suc n) ss system result =
     (if \<not> system < length ss then Inl Dangling
      else if sys_visited (ss ! system) then Inr (ss, result)
      else if sys_visiting (ss ! system) then Inr (ss, result)
      else and_then (visit_before n (ss[system := (ss ! system)\<lparr>sys_visiting := True\<rparr>])
                       (sys_before_systems (ss ! system)) result) (\<lambda>r.
             Inr ((fst r)[system := (fst r ! system)\<lparr>sys_visiting := False, sys_visited := True\<rparr>],
                  snd r @ [system])))"
| "visit_before n ss [] result = Inr (ss, result)"
| "visit_before n ss (b # bs) result =
     and_then (tbevy_visit_system n ss b result) (\<lambda>r. visit_before n (fst r) bs (snd r))"

fun reset_flags :: "tbevy_system_t list \<Rightarrow> nat list \<Rightarrow> fault + tbevy_system_t list" where
  "reset_flags ss [] = Inr ss"
| "reset_flags ss (p # ps) =
     (if p < length ss
      then reset_flags (ss[p := (ss ! p)\<lparr>sys_visited := False, sys_visiting := False\<rparr>]) ps
      else Inl Dangling)"

fun visit_all :: "tbevy_system_t list \<Rightarrow> nat list \<Rightarrow> nat list \<Rightarrow>
    fault + tbevy_system_t list \<times> nat list" where
  "visit_all ss [] result = Inr (ss, result)"
| "visit_all ss (p # ps) result =
     and_then (tbevy_visit_system (length ss) ss p result) (\<lambda>r. visit_all (fst r) ps (snd r))"

text \<open>The result is the system structures with their flags and the sorted list.\<close>

definition tbevy_sort_systems :: "tbevy_system_t list \<Rightarrow> nat list \<Rightarrow>
    fault + tbevy_system_t list \<times> nat list" where
  "tbevy_sort_systems ss systems = and_then (reset_flags ss systems) (\<lambda>ss1. visit_all ss1 systems [])"

fun should_run :: "'u tbevy_run_condition_fn_t \<Rightarrow> nat list \<Rightarrow> 'u \<times> tbevy_app_t \<Rightarrow> bool" where
  "should_run cond [] ua = True"
| "should_run cond (c # cs) ua = (if cond c ua then should_run cond cs ua else False)"

text \<open>The loop of \<open>tbevy_run_stage_systems\<close> over the sorted list; the sort has
  dereferenced every system of the list.\<close>

fun run_systems :: "'u tbevy_system_fn_t \<Rightarrow> 'u tbevy_run_condition_fn_t \<Rightarrow> nat list \<Rightarrow>
    'u \<times> tbevy_app_t \<Rightarrow> 'u \<times> tbevy_app_t" where
  "run_systems exec cond [] ua = ua"
| "run_systems exec cond (p # ps) ua =
     run_systems exec cond ps
       (if should_run cond (sys_run_conditions (app_systems (snd ua) ! p)) ua
        then (case exec (sys_fn (app_systems (snd ua) ! p))
                     (fst ua, app_world (snd ua), app_event_channels (snd ua)) of
                (u1, w1, ev1) \<Rightarrow> (u1, (snd ua)\<lparr>app_world := w1, app_event_channels := ev1\<rparr>))
        else ua)"

definition tbevy_run_stage_systems :: "'u tbevy_system_fn_t \<Rightarrow> 'u tbevy_run_condition_fn_t \<Rightarrow>
    'u \<times> tbevy_app_t \<Rightarrow> 64 word \<Rightarrow> fault + 'u \<times> tbevy_app_t" where
  "tbevy_run_stage_systems exec cond ua stage =
     and_then (tbevy_hashmap_slot (app_stage_systems (snd ua)) stage) (\<lambda>slot.
       case slot of
         None \<Rightarrow> Inr ua
       | Some i \<Rightarrow>
           (case he_value (hm_entries (app_stage_systems (snd ua)) ! i) of
              None \<Rightarrow> Inr ua
            | Some sys_list \<Rightarrow>
                if sys_list = [] then Inr ua
                else and_then (tbevy_sort_systems (app_systems (snd ua)) sys_list) (\<lambda>r.
                       Inr (run_systems exec cond (snd r)
                              (fst ua, (snd ua)\<lparr>app_systems := fst r,
                                 app_stage_systems :=
                                   slot_update (app_stage_systems (snd ua)) i (snd r)\<rparr>)))))"

subsection \<open>Events\<close>

text \<open>The first send of an event type allocates its channel (zero-filled, then the
  element size and the two buffers of 16 elements).\<close>

definition new_channel :: "nat \<Rightarrow> tbevy_event_channel_t" where
  "new_channel event_size =
     \<lparr>ec_read_buffer = (\<lambda>a. 0), ec_write_buffer = (\<lambda>a. 0), ec_read_count = 0,
      ec_read_capacity = 16, ec_write_count = 0, ec_write_capacity = 16,
      ec_element_size = event_size, ec_epoch = 0, ec_active_tick = 0\<rparr>"

definition channel_push :: "tbevy_event_channel_t \<Rightarrow> 8 word list \<Rightarrow> nat \<Rightarrow> tbevy_event_channel_t" where
  "channel_push chan event_data event_size =
     chan\<lparr>ec_write_capacity := (if ec_write_capacity chan \<le> ec_write_count chan
                                 then ec_write_capacity chan * 2 else ec_write_capacity chan),
          ec_write_buffer := (\<lambda>a. if ec_write_count chan * event_size \<le> a
                                     \<and> a < ec_write_count chan * event_size + event_size
                                   then event_data ! (a - ec_write_count chan * event_size)
                                   else ec_write_buffer chan a),
          ec_write_count := ec_write_count chan + 1\<rparr>"

definition events_send :: "tbevy_events_t \<Rightarrow> 64 word \<Rightarrow> 8 word list \<Rightarrow> nat \<Rightarrow> fault + tbevy_events_t" where
  "events_send m event_type_id event_data event_size =
     (if length event_data < event_size then Inl OutOfBounds else
     and_then (tbevy_hashmap_slot m event_type_id) (\<lambda>slot.
     and_then (case slot of
                 Some i \<Rightarrow> Inr (m, i)
               | None \<Rightarrow> hashmap_set_slot m event_type_id (new_channel event_size)) (\<lambda>r.
       case he_value (hm_entries (fst r) ! snd r) of
         None \<Rightarrow> Inl NullDeref
       | Some chan \<Rightarrow> Inr (slot_update (fst r) (snd r) (channel_push chan event_data event_size)))))"

definition tbevy_app_send_event :: "tbevy_app_t \<Rightarrow> 64 word \<Rightarrow> 8 word list \<Rightarrow> nat \<Rightarrow> fault + tbevy_app_t" where
  "tbevy_app_send_event app event_type_id event_data event_size =
     and_then (events_send (app_event_channels app) event_type_id event_data event_size)
       (\<lambda>m. Inr (app\<lparr>app_event_channels := m\<rparr>))"

text \<open>The events the callback of \<open>tbevy_app_read_events\<close> is called with, in the order
  of the calls.\<close>

definition channel_read :: "tbevy_event_channel_t \<Rightarrow> 8 word list list" where
  "channel_read chan =
     map (\<lambda>i. map (\<lambda>j. ec_read_buffer chan (i * ec_element_size chan + j))
                [0 ..< ec_element_size chan])
       [0 ..< ec_read_count chan]"

definition tbevy_app_read_events :: "tbevy_app_t \<Rightarrow> 64 word \<Rightarrow> fault + 8 word list list" where
  "tbevy_app_read_events app event_type_id =
     and_then (tbevy_hashmap_get (app_event_channels app) event_type_id) (\<lambda>chan.
       case chan of None \<Rightarrow> Inr [] | Some c \<Rightarrow> Inr (channel_read c))"

definition channel_swap :: "tbevy_event_channel_t \<Rightarrow> tbevy_event_channel_t" where
  "channel_swap chan =
     chan\<lparr>ec_read_buffer := ec_write_buffer chan, ec_write_buffer := ec_read_buffer chan,
          ec_read_capacity := ec_write_capacity chan, ec_write_capacity := ec_read_capacity chan,
          ec_read_count := ec_write_count chan, ec_write_count := 0,
          ec_epoch := ec_epoch chan + 1\<rparr>"

text \<open>The loop of \<open>tbevy_app_clear_events\<close> dereferences the value of every
  occupied entry; \<open>null_channel\<close> says that one of them is a null pointer.\<close>

fun null_channel :: "tbevy_event_channel_t tbevy_hashmap_entry_t list \<Rightarrow> bool" where
  "null_channel [] = False"
| "null_channel (e # es) = (if he_occupied e \<and> he_value e = None then True else null_channel es)"

definition events_clear :: "tbevy_events_t \<Rightarrow> fault + tbevy_events_t" where
  "events_clear m =
     (if null_channel (hm_entries m) then Inl NullDeref
      else Inr (m\<lparr>hm_entries :=
                  map (\<lambda>e. if he_occupied e then e\<lparr>he_value := map_option channel_swap (he_value e)\<rparr>
                           else e) (hm_entries m)\<rparr>))"

definition tbevy_app_clear_events :: "tbevy_app_t \<Rightarrow> fault + tbevy_app_t" where
  "tbevy_app_clear_events app =
     and_then (events_clear (app_event_channels app)) (\<lambda>m. Inr (app\<lparr>app_event_channels := m\<rparr>))"

subsection \<open>The frame\<close>

fun run_startup_stage :: "'u tbevy_system_fn_t \<Rightarrow> 'u tbevy_run_condition_fn_t \<Rightarrow>
    64 word list \<Rightarrow> 'u \<times> tbevy_app_t \<Rightarrow> fault + 'u \<times> tbevy_app_t" where
  "run_startup_stage exec cond [] ua = Inr ua"
| "run_startup_stage exec cond (p # ps) ua =
     and_then (stage_deref (snd ua) p) (\<lambda>s.
       if st_id s = TBEVY_STAGE_STARTUP then tbevy_run_stage_systems exec cond ua p
       else run_startup_stage exec cond ps ua)"

definition tbevy_app_run_startup :: "'u tbevy_system_fn_t \<Rightarrow> 'u tbevy_run_condition_fn_t \<Rightarrow>
    'u \<times> tbevy_app_t \<Rightarrow> fault + 'u \<times> tbevy_app_t" where
  "tbevy_app_run_startup exec cond ua =
     (if app_startup_run (snd ua) then Inr ua
      else and_then (run_startup_stage exec cond (app_stages (snd ua)) ua) (\<lambda>ua1.
             Inr (fst ua1, (snd ua1)\<lparr>app_startup_run := True\<rparr>)))"

fun run_update_stages :: "'u tbevy_system_fn_t \<Rightarrow> 'u tbevy_run_condition_fn_t \<Rightarrow>
    64 word list \<Rightarrow> 'u \<times> tbevy_app_t \<Rightarrow> fault + 'u \<times> tbevy_app_t" where
  "run_update_stages exec cond [] ua = Inr ua"
| "run_update_stages exec cond (p # ps) ua =
     and_then (stage_deref (snd ua) p) (\<lambda>s.
       if st_id s \<noteq> TBEVY_STAGE_STARTUP
       then and_then (tbevy_run_stage_systems exec cond ua p) (run_update_stages exec cond ps)
       else run_update_stages exec cond ps ua)"

text \<open>
  The body of \<open>tbevy_app_update\<close> is four statements, in this order: the startup
  stage if it has not run, the loop over the other stages, \<open>tbevy_app_clear_events\<close>
  and \<open>tecs_world_update\<close>.
\<close>

datatype tbevy_update_stmt = RunStartup | RunStages | ClearEvents | WorldUpdate

definition tbevy_app_update_body :: "tbevy_update_stmt list" where
  "tbevy_app_update_body = [RunStartup, RunStages, ClearEvents, WorldUpdate]"

fun update_stmt :: "'u tbevy_system_fn_t \<Rightarrow> 'u tbevy_run_condition_fn_t \<Rightarrow>
    tbevy_update_stmt \<Rightarrow> 'u \<times> tbevy_app_t \<Rightarrow> fault + 'u \<times> tbevy_app_t" where
  "update_stmt exec cond RunStartup ua =
     (if \<not> app_startup_run (snd ua) then tbevy_app_run_startup exec cond ua else Inr ua)"
| "update_stmt exec cond RunStages ua = run_update_stages exec cond (app_stages (snd ua)) ua"
| "update_stmt exec cond ClearEvents ua =
     and_then (tbevy_app_clear_events (snd ua)) (\<lambda>app1. Inr (fst ua, app1))"
| "update_stmt exec cond WorldUpdate ua =
     Inr (fst ua, (snd ua)\<lparr>app_world := tecs_world_update (app_world (snd ua))\<rparr>)"

text \<open>Running statements in sequence: the final state, and the states after each
  statement.\<close>

fun run_stmts :: "'u tbevy_system_fn_t \<Rightarrow> 'u tbevy_run_condition_fn_t \<Rightarrow>
    tbevy_update_stmt list \<Rightarrow> 'u \<times> tbevy_app_t \<Rightarrow> fault + 'u \<times> tbevy_app_t" where
  "run_stmts exec cond [] ua = Inr ua"
| "run_stmts exec cond (s # ss) ua =
     and_then (update_stmt exec cond s ua) (run_stmts exec cond ss)"

fun trace_stmts :: "'u tbevy_system_fn_t \<Rightarrow> 'u tbevy_run_condition_fn_t \<Rightarrow>
    tbevy_update_stmt list \<Rightarrow> 'u \<times> tbevy_app_t \<Rightarrow> fault + ('u \<times> tbevy_app_t) list" where
  "trace_stmts exec cond [] ua = Inr []"
| "trace_stmts exec cond (s # ss) ua =
     and_then (update_stmt exec cond s ua) (\<lambda>ua1.
       and_then (trace_stmts exec cond ss ua1) (\<lambda>rest. Inr (ua1 # rest)))"

definition tbevy_app_update :: "'u tbevy_system_fn_t \<Rightarrow> 'u tbevy_run_condition_fn_t \<Rightarrow>
    'u \<times> tbevy_app_t \<Rightarrow> fault + 'u \<times> tbevy_app_t" where
  "tbevy_app_update exec cond ua = run_stmts exec cond tbevy_app_update_body ua"

definition tbevy_app_update_trace :: "'u tbevy_system_fn_t \<Rightarrow> 'u tbevy_run_condition_fn_t \<Rightarrow>
    'u \<times> tbevy_app_t \<Rightarrow> fault + ('u \<times> tbevy_app_t) list" where
  "tbevy_app_update_trace exec cond ua = trace_stmts exec cond tbevy_app_update_body ua"

subsection \<open>Scenario scripts\<close>

text \<open>Systems that append their function to a log, no run conditions, and the
  addresses an allocator may return for the six default stages.\<close>

definition log_system :: "nat list tbevy_system_fn_t" where
  "log_system f s = (case s of (log, w, ev) \<Rightarrow> (log @ [f], w, ev))"

definition no_condition :: "nat list tbevy_run_condition_fn_t" where
  "no_condition c ua = True"

definition stage_addresses :: "64 word list" where
  "stage_addresses = [4096, 4176, 4256, 4336, 4416, 4496]"

(*BEVY-DEFINITIONS*)

section \<open>Running the model on concrete inputs\<close>

text \<open>
  The runs below are evaluated by rewriting with the definitions.  The congruence rules
  keep a continuation, the body of a \<open>let\<close> and the branches of a case distinction
  unevaluated until the value they wait for is known.
\<close>

declare grow_capacity.simps [simp del]
declare iter_scan.simps [simp del]

lemma and_then_Inl: "and_then (Inl e) f = Inl e"
  by (simp add: and_then_def)

lemma and_then_Inr: "and_then (Inr x) f = f x"
  by (simp add: and_then_def)

lemma and_then_cong_weak: "m = m' \<Longrightarrow> and_then m f = and_then m' f"
  by simp

lemma upt_0_numeral: "[0..<numeral n] = 0 # [Suc 0..<numeral n]"
  by (rule upt_conv_Cons) simp

lemma upt_1_numeral:
  "[Suc 0..<numeral n] = (if Suc 0 < numeral n then Suc 0 # [2..<numeral n] else [])"
  unfolding numeral_2_eq_2 by (rule upt_rec)

lemma map_lookup_numeral:
  "map_lookup es k index start (numeral n) =
     (if \<not> me_occupied (es ! index) then None
      else if me_key (es ! index) = k then Some (me_val (es ! index))
      else if (index + 1) mod length es \<noteq> start
      then map_lookup es k ((index + 1) mod length es) start (pred_numeral n)
      else None)"
  by (simp add: numeral_eq_Suc)

lemma map_probe_numeral:
  "map_probe es k index (numeral n) =
     (if me_occupied (es ! index) \<and> me_key (es ! index) \<noteq> k
      then map_probe es k ((index + 1) mod length es) (pred_numeral n)
      else Some index)"
  by (simp add: numeral_eq_Suc)

lemma find_archetype_loop_numeral:
  "find_archetype_loop t hash index start (numeral n) =
     (case te_archetype (t ! index) of
        None \<Rightarrow> None
      | Some p \<Rightarrow>
          if te_hash (t ! index) = hash then Some p
          else if (index + 1) mod length t \<noteq> start
          then find_archetype_loop t hash ((index + 1) mod length t) start (pred_numeral n)
          else None)"
  by (simp add: numeral_eq_Suc)

lemma probe_null_numeral:
  "probe_null t index (numeral n) =
     (if te_archetype (t ! index) \<noteq> None
      then probe_null t ((index + 1) mod length t) (pred_numeral n)
      else Some index)"
  by (simp add: numeral_eq_Suc)

lemma ancestor_loop_numeral:
  "ancestor_loop w ancestor current (numeral n) =
     (if current = 0 then Inr False
      else and_then (tecs_get w current (w_parent_component_id w)) (\<lambda>parent.
             case parent of
               None \<Rightarrow> Inr False
             | Some p \<Rightarrow>
                 if read_parent w p = ancestor then Inr True
                 else ancestor_loop w ancestor (read_parent w p) (pred_numeral n)))"
  by (simp add: numeral_eq_Suc)

lemma spawn_entities_numeral:
  "spawn_entities (numeral n) comps w =
     and_then (tecs_entity_new w) (\<lambda>we.
       and_then (set_all (fst we) (snd we) comps) (spawn_entities (pred_numeral n) comps))"
  by (simp add: numeral_eq_Suc)

lemmas run_simps =
  upt_0_numeral upt_1_numeral and_then_Inl and_then_Inr Let_def
  word_le_nat_alt word_less_nat_alt signed_modulo_int_def signed_divide_int_def
  map_lookup_numeral map_probe_numeral find_archetype_loop_numeral probe_null_numeral
  ancestor_loop_numeral spawn_entities_numeral
  TECS_CHUNK_SIZE_def TECS_ENTITY_INDEX_def TECS_ENTITY_GENERATION_def TECS_ENTITY_MAKE_def
  tecs_sparse_set_init_def tecs_sparse_set_ensure_capacity_def tecs_sparse_set_create_def
  tecs_sparse_set_get_def tecs_sparse_set_remove_def
  map_init_def map_insert_def tecs_component_map_get_def tecs_component_map_set_def
  tecs_edge_map_get_def tecs_edge_map_set_def
  tecs_native_set_data_def tecs_native_copy_data_def tecs_native_swap_data_def
  tecs_chunk_new_def tecs_hash_component_set_def tecs_archetype_new_def
  tecs_archetype_find_component_def tecs_archetype_has_component_def
  tecs_archetype_find_edge_def tecs_archetype_add_edge_def
  tecs_register_component_def tecs_world_new_def tecs_world_update_def tecs_world_tick_def
  tecs_world_entity_count_def free_slot_def clear_slot_def tecs_world_clear_def
  tecs_world_find_archetype_def tecs_world_add_archetype_def
  deref_def store_def set_ticks_def swap_column_def
  tecs_archetype_add_entity_def tecs_archetype_remove_entity_def
  tecs_entity_new_def tecs_entity_delete_def tecs_entity_exists_def
  alloc_archetype_def add_edge_at_def find_or_create_archetype_def
  tecs_world_get_or_create_archetype_with_component_def
  tecs_world_get_or_create_archetype_without_component_def
  copy_column_def tecs_copy_component_data_def write_component_def move_entity_def
  tecs_set_def load_def tecs_get_def tecs_has_def tecs_unset_def
  TECS_MAX_QUERY_TERMS_def tecs_query_new_def tecs_query_add_term_def tecs_query_with_def
  tecs_query_without_def tecs_archetype_matches_query_def tecs_query_build_def
  tecs_query_iter_init_def iter_scan.simps tecs_iter_next_def tecs_iter_count_def
  le_bytes_def le_word_def children_bytes_def read_parent_def tecs_find_children_def
  tecs_ensure_children_def tecs_remove_children_entry_def tecs_is_ancestor_of_def
  tecs_get_parent_def detach_from_old_parent_def attach_child_def tecs_add_child_def
  record_of_def handle_at_def row_resolves_def

lemma get_probe_numeral:
  "get_probe es k index (numeral n) =
     (if he_occupied (es ! index) \<and> he_key (es ! index) = k then Some index
      else if \<not> he_occupied (es ! index) then None
      else get_probe es k ((index + 1) mod length es) (pred_numeral n))"
  by (simp add: numeral_eq_Suc)

lemma free_probe_numeral:
  "free_probe es index (numeral n) =
     (if he_occupied (es ! index) then free_probe es ((index + 1) mod length es) (pred_numeral n)
      else Some index)"
  by (simp add: numeral_eq_Suc)

lemma set_probe_numeral:
  "set_probe es k index (numeral n) =
     (if he_occupied (es ! index) \<and> he_key (es ! index) \<noteq> k
      then set_probe es k ((index + 1) mod length es) (pred_numeral n)
      else Some index)"
  by (simp add: numeral_eq_Suc)

lemma null_channel_nth:
  "null_channel es = list_ex (\<lambda>i. he_occupied (es ! i) \<and> he_value (es ! i) = None) [0 ..< length es]"
proof -
  have a: "null_channel es = (\<exists>e\<in>set es. he_occupied e \<and> he_value e = None)"
    by (induction es) auto
  have b: "list_ex (\<lambda>i. he_occupied (es ! i) \<and> he_value (es ! i) = None) [0 ..< length es]
      = (\<exists>i<length es. he_occupied (es ! i) \<and> he_value (es ! i) = None)"
    unfolding list_ex_iff by force
  have c: "(\<exists>e\<in>set es. he_occupied e \<and> he_value e = None)
      = (\<exists>i<length es. he_occupied (es ! i) \<and> he_value (es ! i) = None)"
    by (metis in_set_conv_nth)
  show ?thesis unfolding a b c ..
qed

lemmas bevy_simps =
  null_channel_nth map_update get_probe_numeral free_probe_numeral set_probe_numeral
  hm_capacity_def tbevy_hash_string_def tbevy_hashmap_init_def tbevy_hashmap_slot_def
  tbevy_hashmap_get_def hashmap_set_slot_def tbevy_hashmap_set_def slot_update_def
  tbevy_stage_alloc_def stage_deref_def tbevy_app_add_stage_def default_stage_names_def
  tbevy_app_new_def tbevy_stage_default_def tbevy_app_add_system_def system_update_def
  tbevy_system_in_stage_def tbevy_system_label_def tbevy_system_after_def
  tbevy_system_before_def tbevy_system_run_if_def tbevy_system_build_def
  tbevy_sort_systems_def tbevy_run_stage_systems_def new_channel_def channel_push_def
  events_send_def tbevy_app_send_event_def channel_read_def tbevy_app_read_events_def
  channel_swap_def events_clear_def tbevy_app_clear_events_def tbevy_app_run_startup_def
  tbevy_app_update_body_def tbevy_app_update_def tbevy_app_update_trace_def
  log_system_def no_condition_def stage_addresses_def

lemma smod_nonneg: "0 \<le> (x::int) \<Longrightarrow> x smod TECS_CHUNK_SIZE = x mod 4096"
  by (cases "x = 0") (simp_all add: signed_modulo_int_def TECS_CHUNK_SIZE_def)

section \<open>The claims\<close>

text \<open>
  C1 (the code does otherwise).  Two entities are spawned; they are rows 0 and 1 of the
  only chunk of the root archetype.  Setting a component on the first one moves it to a
  new archetype and swap-removes row 0 of the root chunk.  Afterwards the root chunk has
  one occupied row, row 0, and it holds the handle of the second entity; that handle
  still resolves to the record (root, chunk 0, row 1): \<open>tecs_archetype_remove_entity\<close>
  never updates the record of the entity it swaps in, so row 0 does not resolve back to
  itself.
\<close>

theorem C1_swapped_entity_record_is_stale:
  "and_then tecs_world_new (\<lambda>w0.
     and_then (tecs_entity_new (fst (tecs_register_component w0 ''C'' 4))) (\<lambda>(w1, e1).
     and_then (tecs_entity_new w1) (\<lambda>(w2, e2).
     and_then (tecs_set w2 e1 3 [1, 2, 3, 4] 4) (\<lambda>w3.
       Inr (e2, handle_at w3 (w_root_archetype w3) 0 0, handle_at w3 (w_root_archetype w3) 0 1,
            record_of w3 e2, row_resolves w3 (w_root_archetype w3) 0 0)))))
   = Inr (1, Some 1, None,
          Some \<lparr>rec_archetype = Some 0, rec_chunk_index = 0, rec_row = 1\<rparr>, False)"
  by (simp add: run_simps cong: and_then_cong_weak let_weak_cong prod.case_cong_weak)

text \<open>
  C2 (the code does otherwise).  The run of the repository's own \<open>test_entity_delete\<close>:
  two entities are spawned and the first is deleted.  The entity count is 1, but the
  deleted handle still exists and the handle of the entity that was not deleted does not:
  \<open>tecs_sparse_set_remove\<close> moves the last dense record into the freed slot without
  redirecting the sparse entry of the entity it belongs to, and the generation of the
  freed index only changes when the index is handed out again.
\<close>

theorem C2_deleted_handle_still_exists:
  "and_then tecs_world_new (\<lambda>w0.
     and_then (tecs_entity_new w0) (\<lambda>(w1, e1).
     and_then (tecs_entity_new w1) (\<lambda>(w2, e2).
     and_then (tecs_entity_delete w2 e1) (\<lambda>w3.
       Inr (e1, e2, tecs_world_entity_count w3, tecs_entity_exists w3 e1,
            tecs_entity_exists w3 e2)))))
   = Inr (0, 1, 1, True, False)"
  by (simp add: run_simps cong: and_then_cong_weak let_weak_cong prod.case_cong_weak)

text \<open>
  C3 (the code does otherwise).  An entity is spawned and deleted and a second one spawned,
  which recycles index 0 with generation 1.  After \<open>tecs_world_clear\<close> the entity count
  and the tick are 0, but the next \<open>tecs_entity_new\<close> hands out index 0 with
  generation 0 while the stored generation of index 0 is still 1: the lookup of the new
  handle returns the null pointer, which \<open>tecs_archetype_add_entity\<close> dereferences.
\<close>

theorem C3_spawn_after_clear_faults:
  "and_then tecs_world_new (\<lambda>w0.
     and_then (tecs_entity_new w0) (\<lambda>(w1, e1).
     and_then (tecs_entity_delete w1 e1) (\<lambda>w2.
     and_then (tecs_entity_new w2) (\<lambda>(w3, e2).
     and_then (tecs_world_clear w3) (\<lambda>w4.
       Inr (tecs_world_entity_count w4, tecs_world_tick w4,
            tecs_sparse_set_get (fst (tecs_sparse_set_create (w_entities w4)))
              (snd (tecs_sparse_set_create (w_entities w4))),
            tecs_entity_new w4))))))
   = Inr (0, 0, None, Inl NullDeref)"
  by (simp add: run_simps cong: and_then_cong_weak let_weak_cong prod.case_cong_weak)

text \<open>
  C4 (the code does otherwise).  Both systems are in the Update stage.  In the first
  application the system with function 20 is labelled \<open>y\<close> and built, then the system
  with function 10 is declared to run before \<open>y\<close> and built: its list of before systems
  holds the other system, and the update runs 20 first and 10 second.
  \<open>tbevy_visit_system\<close> puts the systems a system must precede in front of it.  In the
  second application the system with function 10 is added first and labelled \<open>x\<close>, the
  system with function 20 is declared to run after \<open>x\<close> and is built first: the edge is
  in its list of after systems, which the sort never reads, and the update runs 20
  first, in the order of the calls of \<open>tbevy_system_build\<close>.
\<close>

theorem C4_dependency_edges_not_respected:
  "and_then (tbevy_app_new stage_addresses) (\<lambda>app0.
     case tbevy_app_add_system app0 20 of (app1, y) \<Rightarrow>
     and_then (tbevy_system_label app1 y ''y'') (\<lambda>app2.
     and_then (tbevy_system_build app2 y) (\<lambda>app3.
     case tbevy_app_add_system app3 10 of (app4, x) \<Rightarrow>
     and_then (tbevy_system_before app4 x ''y'') (\<lambda>app5.
     and_then (tbevy_system_build app5 x) (\<lambda>app6.
     and_then (tbevy_app_update log_system no_condition ([], app6)) (\<lambda>r.
       Inr (sys_before_systems (app_systems app6 ! x) = [y], fst r)))))))
   = Inr (True, [20, 10])
   \<and>
   and_then (tbevy_app_new stage_addresses) (\<lambda>app0.
     case tbevy_app_add_system app0 10 of (app1, x) \<Rightarrow>
     and_then (tbevy_system_label app1 x ''x'') (\<lambda>app2.
     case tbevy_app_add_system app2 20 of (app3, y) \<Rightarrow>
     and_then (tbevy_system_after app3 y ''x'') (\<lambda>app4.
     and_then (tbevy_system_build app4 y) (\<lambda>app5.
     and_then (tbevy_system_build app5 x) (\<lambda>app6.
     and_then (tbevy_app_update log_system no_condition ([], app6)) (\<lambda>r.
       Inr (sys_after_systems (app_systems app6 ! y) = [x],
            sys_declaration_order (app_systems app6 ! x) < sys_declaration_order (app_systems app6 ! y),
            fst r)))))))
   = Inr (True, True, [20, 10])"
  by (simp add: run_simps bevy_simps cong: and_then_cong_weak let_weak_cong prod.case_cong_weak)

text \<open>
  C7 (the code does otherwise).  A component of 4 bytes is registered and set on an entity,
  which creates the archetype of that component and caches it as an add edge of the root
  archetype.  \<open>tecs_world_clear\<close> frees the archetype and leaves the edge.  The entity
  spawned next exists, and setting the component on it follows the edge into the freed
  archetype: the call does not store the bytes, it reads freed memory.
\<close>

theorem C7_set_after_clear_uses_freed_archetype:
  "and_then tecs_world_new (\<lambda>w0.
     and_then (tecs_entity_new (fst (tecs_register_component w0 ''C'' 4))) (\<lambda>(w1, a).
     and_then (tecs_set w1 a 3 [1, 2, 3, 4] 4) (\<lambda>w2.
     and_then (tecs_world_clear w2) (\<lambda>w3.
     and_then (tecs_entity_new w3) (\<lambda>(w4, b).
       Inr (tecs_entity_exists w4 b, tecs_set w4 b 3 [5, 6, 7, 8] 4))))))
   = Inr (True, Inl Dangling)"
  by (simp add: run_simps cong: and_then_cong_weak let_weak_cong prod.case_cong_weak)

text \<open>
  C8 (the code does otherwise).  Three entities are spawned: \<open>e0\<close> (the first handle a
  world hands out, 0), \<open>e1\<close> and \<open>e2\<close>.  \<open>e1\<close> is made a child of \<open>e0\<close> and \<open>e0\<close>
  a child of \<open>e2\<close>, so \<open>e2\<close> is the grandparent of \<open>e1\<close>.  The walk of
  \<open>tecs_is_ancestor_of\<close> from \<open>e1\<close> stops when it reaches the handle 0, which it takes
  for the null handle: \<open>e2\<close> is not found to be an ancestor of \<open>e1\<close>, and
  \<open>tecs_add_child\<close> makes \<open>e2\<close> a child of \<open>e1\<close>.  Afterwards the parent of \<open>e2\<close> is
  \<open>e1\<close>, the parent of \<open>e1\<close> is \<open>e0\<close> and the parent of \<open>e0\<close> is \<open>e2\<close>: a cycle.
\<close>

theorem C8_add_child_closes_cycle_through_first_entity:
  "and_then tecs_world_new (\<lambda>w0.
     and_then (tecs_entity_new w0) (\<lambda>(w1, e0).
     and_then (tecs_entity_new w1) (\<lambda>(w2, e1).
     and_then (tecs_add_child w2 e0 e1) (\<lambda>w3.
     and_then (tecs_entity_new w3) (\<lambda>(w4, e2).
     and_then (tecs_add_child w4 e2 e0) (\<lambda>w5.
     and_then (tecs_has w5 e1 (w_parent_component_id w5)) (\<lambda>has1.
     and_then (tecs_get_parent w5 e1) (\<lambda>parent1.
     and_then (tecs_has w5 e0 (w_parent_component_id w5)) (\<lambda>has0.
     and_then (tecs_get_parent w5 e0) (\<lambda>parent0.
     and_then (tecs_has w5 e2 (w_parent_component_id w5)) (\<lambda>has2.
     and_then (tecs_is_ancestor_of w5 e2 e1) (\<lambda>ancestor.
     and_then (tecs_add_child w5 e1 e2) (\<lambda>w6.
     and_then (tecs_has w6 e2 (w_parent_component_id w6)) (\<lambda>has2'.
     and_then (tecs_get_parent w6 e2) (\<lambda>parent2'.
     and_then (tecs_get_parent w6 e1) (\<lambda>parent1'.
     and_then (tecs_get_parent w6 e0) (\<lambda>parent0'.
       Inr ((e0, e1, e2), (has1, parent1, has0, parent0, has2, ancestor),
            (has2', parent2', parent1', parent0')))))))))))))))))))
   = Inr ((0, 1, 2), (True, 0, True, 2, False, False), (True, 1, 0, 2))"
  by (simp add: run_simps cong: and_then_cong_weak let_weak_cong prod.case_cong_weak)

text \<open>
  C9.  Position and Velocity (8 bytes each) get the ids 3 and 4, after the two hierarchy
  components.  Five entities are spawned with both and three with Position only.  The
  query With(Position), With(Velocity) yields one chunk, of 5 rows, and then ends; the
  query With(Position), Without(Velocity) yields one chunk, of 3 rows, and then ends.
\<close>

theorem C9_query_counts:
  "and_then tecs_world_new (\<lambda>w0.
     and_then (spawn_entities 5 [(3, [1, 0, 0, 0, 2, 0, 0, 0], 8), (4, [3, 0, 0, 0, 4, 0, 0, 0], 8)]
                 (fst (tecs_register_component (fst (tecs_register_component w0 ''Position'' 8))
                         ''Velocity'' 8))) (\<lambda>w1.
     and_then (spawn_entities 3 [(3, [5, 0, 0, 0, 6, 0, 0, 0], 8)] w1) (\<lambda>w.
     and_then (tecs_query_build w (tecs_query_with (tecs_query_with tecs_query_new 3) 4)) (\<lambda>qa.
     and_then (tecs_query_iter_init w qa) (\<lambda>(qa1, a0).
     and_then (tecs_iter_next w qa1 a0) (\<lambda>(a1, more_a1).
     and_then (tecs_iter_count w a1) (\<lambda>count_a.
     and_then (tecs_iter_next w qa1 a1) (\<lambda>(a2, more_a2).
     and_then (tecs_query_build w (tecs_query_without (tecs_query_with tecs_query_new 3) 4)) (\<lambda>qb.
     and_then (tecs_query_iter_init w qb) (\<lambda>(qb1, b0).
     and_then (tecs_iter_next w qb1 b0) (\<lambda>(b1, more_b1).
     and_then (tecs_iter_count w b1) (\<lambda>count_b.
     and_then (tecs_iter_next w qb1 b1) (\<lambda>(b2, more_b2).
       Inr ((more_a1, count_a, more_a2), (more_b1, count_b, more_b2)))))))))))))))
   = Inr ((True, 5, False), (True, 3, False))"
  by (simp add: run_simps cong: and_then_cong_weak let_weak_cong prod.case_cong_weak)

text \<open>
  C10.  Let the handle \<open>e\<close> resolve to a record that names the archetype \<open>a\<close> (at
  address \<open>p\<close>), a chunk of \<open>a\<close> and a row, and let \<open>a\<close> contain \<open>c\<close> as a data
  component, stored in column \<open>ci\<close>.  Then \<open>tecs_set\<close> returns the world in which only
  that column of that chunk differs: the \<open>sz\<close> bytes at the row of the record are \<open>v\<close>
  and the changed tick of that row is the current world tick.  The entity index (and
  with it the archetype, chunk index and row of \<open>e\<close>), the tick and the version of the
  world, the added ticks of the column, and every other column, chunk and archetype are
  the same as before.  The row is the one the record of \<open>e\<close> names, taken modulo the
  chunk size as the code does.
\<close>

theorem C10_set_existing_frame:
  assumes look: "tecs_sparse_set_get (w_entities w) e = Some di"
    and arch: "rec_archetype (ss_dense (w_entities w) ! di) = Some p"
    and heap: "w_heap w p = Some a"
    and has: "0 \<le> tecs_archetype_find_component a c"
    and col: "tecs_component_map_get (a_data_component_map a) c = int ci"
    and chunk_lo: "0 \<le> rec_chunk_index (ss_dense (w_entities w) ! di)"
    and chunk_hi: "rec_chunk_index (ss_dense (w_entities w) ! di) < int (length (a_chunks a))"
    and row: "0 \<le> rec_row (ss_dense (w_entities w) ! di)"
  shows "tecs_set w e c v sz =
     Inr (w\<lparr>w_heap := (w_heap w)(p := Some
            (a\<lparr>a_chunks := (a_chunks a)
               [nat (rec_chunk_index (ss_dense (w_entities w) ! di)) :=
                  (a_chunks a ! nat (rec_chunk_index (ss_dense (w_entities w) ! di)))
                    \<lparr>ch_columns :=
                       (ch_columns (a_chunks a ! nat (rec_chunk_index (ss_dense (w_entities w) ! di))))
                         [ci := overwrite_row
                            (ch_columns (a_chunks a ! nat (rec_chunk_index (ss_dense (w_entities w) ! di))) ! ci)
                            (nat (rec_row (ss_dense (w_entities w) ! di) mod 4096)) v (nat sz)
                            (w_tick w)]\<rparr>]\<rparr>))\<rparr>)"
  using assms
  by (simp add: tecs_set_def write_component_def deref_def store_def and_then_def Let_def
      smod_nonneg overwrite_row_def tecs_native_set_data_def)

text \<open>An instance: the entity of \<open>demo_run\<close> holds component 3 with the bytes 1, 2, 3, 4;
  setting the bytes 9, 9, 9, 9 keeps the entity index, the root archetype and the pointer
  \<open>tecs_get\<close> returns, and the bytes read through that pointer are 9, 9, 9, 9.\<close>

theorem C10_set_existing_frame_witness:
  "\<exists>w w'. demo_run = Inr w \<and> tecs_sparse_set_get (w_entities w) 0 = Some 0
      \<and> tecs_set w 0 3 [9, 9, 9, 9] 4 = Inr w' \<and> w_entities w' = w_entities w
      \<and> w_heap w' 0 = w_heap w 0 \<and> tecs_get w' 0 3 = tecs_get w 0 3
      \<and> and_then (tecs_get w' 0 3) (\<lambda>p. Inr (load w' (the p) 4)) = Inr [9, 9, 9, 9]"
proof -
  have "\<exists>w a. demo_run = Inr w
      \<and> tecs_sparse_set_get (w_entities w) 0 = Some 0
      \<and> rec_archetype (ss_dense (w_entities w) ! 0) = Some 1
      \<and> w_heap w 1 = Some a
      \<and> 0 \<le> tecs_archetype_find_component a 3
      \<and> tecs_component_map_get (a_data_component_map a) 3 = int 0
      \<and> 0 \<le> rec_chunk_index (ss_dense (w_entities w) ! 0)
      \<and> rec_chunk_index (ss_dense (w_entities w) ! 0) < int (length (a_chunks a))
      \<and> 0 \<le> rec_row (ss_dense (w_entities w) ! 0)
      \<and> rec_chunk_index (ss_dense (w_entities w) ! 0) = 0
      \<and> rec_row (ss_dense (w_entities w) ! 0) = 0
      \<and> ci_size (a_data_components a ! 0) = 4
      \<and> length (a_chunks a) = 1 \<and> length (ch_columns (a_chunks a ! 0)) = 1"
    by (simp add: demo_run_def run_simps cong: and_then_cong_weak let_weak_cong prod.case_cong_weak)
  then obtain w a where run: "demo_run = Inr w"
    and look: "tecs_sparse_set_get (w_entities w) 0 = Some 0"
    and arch: "rec_archetype (ss_dense (w_entities w) ! 0) = Some 1"
    and heap: "w_heap w 1 = Some a"
    and has: "0 \<le> tecs_archetype_find_component a 3"
    and col: "tecs_component_map_get (a_data_component_map a) 3 = int 0"
    and lo: "0 \<le> rec_chunk_index (ss_dense (w_entities w) ! 0)"
    and hi: "rec_chunk_index (ss_dense (w_entities w) ! 0) < int (length (a_chunks a))"
    and row: "0 \<le> rec_row (ss_dense (w_entities w) ! 0)"
    and k0: "rec_chunk_index (ss_dense (w_entities w) ! 0) = 0"
    and r0: "rec_row (ss_dense (w_entities w) ! 0) = 0"
    and sz: "ci_size (a_data_components a ! 0) = 4"
    and len: "length (a_chunks a) = 1" "length (ch_columns (a_chunks a ! 0)) = 1"
    by blast
  have heap': "w_heap w (Suc 0) = Some a" using heap by simp
  note frame = C10_set_existing_frame [OF look arch heap has col lo hi row, of "[9, 9, 9, 9]" 4]
  show ?thesis
    apply (rule exI [of _ w])
    apply (rule exI)
    apply (intro conjI)
          apply (rule run)
         apply (rule look)
        apply (rule frame)
       apply simp
      apply simp
     apply (simp add: tecs_get_def look arch heap' deref_def and_then_def col k0 r0 Let_def len sz)
    apply (simp add: tecs_get_def look arch heap' deref_def and_then_def col k0 r0 Let_def len
        load_def overwrite_row_def sz signed_modulo_int_def TECS_CHUNK_SIZE_def upt_0_numeral upt_1_numeral)
    done
qed

end
